theory Spec2Isabelle
  imports Main
begin

section \<open>Vibe-Builder: access control, team invitations and generation quota\<close>

text \<open>
  The development embeds the three edge functions of the repository
  (\<^verbatim>\<open>supabase/functions/team-management\<close>, \<^verbatim>\<open>manage-projects\<close> with the template
  marketplace that follows it in the same file, and \<^verbatim>\<open>generate-scaffold\<close>) and the
  row-level-security policies of the migration \<^verbatim>\<open>20241201000002_enhanced_security_schema\<close>.
  Tables are lists of records, a handler is a function from the database (and the request)
  to a response and the new database.
\<close>

subsection \<open>Responses\<close>

text \<open>
  Every handler answers with an HTTP status and a JSON body. The failures are grouped by
  status, with the message of the body: 400, 401, 403, 404, 429 (with the fields
  \<^verbatim>\<open>limit\<close> and \<^verbatim>\<open>current\<close>) and 500.
\<close>

datatype error =
    ValidationError string
  | UnauthorizedError string
  | ForbiddenError string
  | NotFoundError string
  | QuotaExceededError int int
  | InternalError string

fun http_status :: "error \<Rightarrow> nat" where
  "http_status (ValidationError m) = 400"
| "http_status (UnauthorizedError m) = 401"
| "http_status (ForbiddenError m) = 403"
| "http_status (NotFoundError m) = 404"
| "http_status (QuotaExceededError l c) = 429"
| "http_status (InternalError m) = 500"

subsection \<open>Tables\<close>

type_synonym uuid = nat
type_synonym timestamptz = nat

text \<open>
  Only the columns that a handler or a policy reads or writes are kept. A nullable column
  that is compared with \<^verbatim>\<open>auth.uid()\<close> or tested with \<^verbatim>\<open>IS NULL\<close> is an option;
  the text columns \<^verbatim>\<open>role\<close> and \<^verbatim>\<open>status\<close> are strings, as the handlers compare
  them with string literals.
\<close>

record user =
  u_id :: uuid
  u_email :: string
  u_subscription_tier :: string
  u_monthly_generations :: int
  u_projects_generated :: int
  u_role :: string
  u_is_active :: bool
  u_current_team_id :: "uuid option"
  u_is_team_owner :: bool

record team =
  t_id :: uuid
  t_name :: string
  t_slug :: string
  t_description :: "string option"
  t_subscription_tier :: string
  t_member_limit :: int
  t_created_by :: uuid

record team_member =
  tm_id :: uuid
  tm_team_id :: uuid
  tm_user_id :: "uuid option"
  tm_role :: string
  tm_status :: string
  tm_invitation_token :: "string option"
  tm_invited_by :: "uuid option"

record project =
  p_id :: uuid
  p_user_id :: uuid
  p_team_id :: "uuid option"
  p_template_id :: "uuid option"
  p_name :: string
  p_description :: string
  p_frontend_stack :: string
  p_backend_stack :: "string option"
  p_auth_method :: "string option"
  p_status :: string
  p_visibility :: "string option"
  p_is_public :: "bool option"
  p_created_at :: timestamptz
  p_deleted_at :: "timestamptz option"

record project_collaborator =
  pc_id :: uuid
  pc_project_id :: uuid
  pc_user_id :: uuid
  pc_role :: string
  pc_status :: string

record template =
  tp_id :: uuid
  tp_name :: string
  tp_category :: string
  tp_visibility :: string
  tp_is_approved :: bool
  tp_created_by :: "uuid option"
  tp_team_id :: "uuid option"
  tp_view_count :: int
  tp_usage_count :: int
  tp_deleted_at :: "timestamptz option"

record activity_log =
  al_user_id :: "uuid option"
  al_team_id :: "uuid option"
  al_action :: string
  al_resource_type :: string
  al_resource_id :: "uuid option"

record usage_event =
  ue_user_id :: uuid
  ue_event_type :: string
  ue_project_id :: "uuid option"

text \<open>
  What one request to the external text generator interpolates into its prompt: the
  description of the application, the stacks (or \<^verbatim>\<open>None specified\<close>) and the base
  template, if any.
\<close>

record prompt =
  pr_appIdea :: string
  pr_frontendStack :: string
  pr_backendStack :: string
  pr_authType :: string
  pr_baseTemplate :: "uuid option"

text \<open>
  The database. \<open>uuid_counter\<close> stands for \<^verbatim>\<open>uuid_generate_v4()\<close>, the default of every
  primary key: the next identifier that has not been handed out. \<open>openai_requests\<close> records
  the prompts sent to the external text generator, so that "the generator is not called" is
  a statement about the state.
\<close>

record db =
  users :: "user list"
  teams :: "team list"
  team_members :: "team_member list"
  projects :: "project list"
  project_collaborators :: "project_collaborator list"
  templates :: "template list"
  activity_logs :: "activity_log list"
  usage_analytics :: "usage_event list"
  uuid_counter :: uuid
  openai_requests :: "prompt list"

definition uuid_generate_v4 :: "db \<Rightarrow> uuid \<times> db" where
  "uuid_generate_v4 d = (uuid_counter d, d\<lparr>uuid_counter := Suc (uuid_counter d)\<rparr>)"

text \<open>
  \<^verbatim>\<open>.single()\<close> of the query builder: the data when the query has exactly one row,
  otherwise no data and an error.
\<close>

fun single :: "'a list \<Rightarrow> 'a option" where
  "single [x] = Some x"
| "single xs = None"

subsection \<open>SQL conditions\<close>

text \<open>
  A condition of a policy is NULL, TRUE or FALSE; a row passes a \<^verbatim>\<open>USING\<close> clause or
  a \<^verbatim>\<open>WHERE\<close> clause when the condition is TRUE.
\<close>

type_synonym sqlbool = "bool option"

definition sql_eq :: "'a option \<Rightarrow> 'a option \<Rightarrow> sqlbool" where
  "sql_eq a b = (case a of None \<Rightarrow> None | Some x \<Rightarrow> (case b of None \<Rightarrow> None | Some y \<Rightarrow> Some (x = y)))"

definition sql_and :: "sqlbool \<Rightarrow> sqlbool \<Rightarrow> sqlbool" where
  "sql_and a b =
     (if a = Some False \<or> b = Some False then Some False
      else if a = None \<or> b = None then None else Some True)"

definition sql_or :: "sqlbool \<Rightarrow> sqlbool \<Rightarrow> sqlbool" where
  "sql_or a b =
     (if a = Some True \<or> b = Some True then Some True
      else if a = None \<or> b = None then None else Some False)"

definition sql_is_null :: "'a option \<Rightarrow> sqlbool" where
  "sql_is_null a = Some (a = None)"

definition sql_is_not_null :: "'a option \<Rightarrow> sqlbool" where
  "sql_is_not_null a = Some (a \<noteq> None)"

definition sql_true :: "sqlbool \<Rightarrow> bool" where
  "sql_true c = (c = Some True)"

definition sql_exists :: "('a \<Rightarrow> sqlbool) \<Rightarrow> 'a list \<Rightarrow> sqlbool" where
  "sql_exists cond rows = Some (filter (\<lambda>r. sql_true (cond r)) rows \<noteq> [])"

subsection \<open>The select policy of projects\<close>

text \<open>
  \<^verbatim>\<open>CREATE POLICY "projects_select_access" ON public.projects FOR SELECT USING (...)\<close>,
  with \<open>auth_uid\<close> the value of \<^verbatim>\<open>auth.uid()\<close>: NULL for an anonymous request.

  The subquery on the team members names the outer column, \<^verbatim>\<open>projects.team_id\<close>. The
  subquery on the collaborators is written \<^verbatim>\<open>WHERE pc.project_id = id\<close>: the table
  \<^verbatim>\<open>project_collaborators\<close> has a column \<^verbatim>\<open>id\<close> of its own, and a column name
  without a table is looked up in the innermost query first, so this \<^verbatim>\<open>id\<close> is the
  identifier of the collaborator row, not the identifier of the project.
\<close>

definition projects_select_access :: "db \<Rightarrow> uuid option \<Rightarrow> project \<Rightarrow> sqlbool" where
  "projects_select_access d auth_uid p =
     sql_and (sql_is_null (p_deleted_at p))
       (sql_or (sql_eq (Some (p_user_id p)) auth_uid)
       (sql_or (sql_and (sql_is_not_null (p_team_id p))
                  (sql_exists (\<lambda>tm.
                      sql_and (sql_eq (Some (tm_team_id tm)) (p_team_id p))
                     (sql_and (sql_eq (tm_user_id tm) auth_uid)
                              (sql_eq (Some (tm_status tm)) (Some ''active''))))
                    (team_members d)))
       (sql_or (sql_exists (\<lambda>pc.
                      sql_and (sql_eq (Some (pc_project_id pc)) (Some (pc_id pc)))
                     (sql_and (sql_eq (Some (pc_user_id pc)) auth_uid)
                              (sql_eq (Some (pc_status pc)) (Some ''active''))))
                    (project_collaborators d))
               (sql_and (sql_eq (p_visibility p) (Some ''public''))
                        (sql_eq (p_is_public p) (Some True))))))"

subsection \<open>Strings of the handlers\<close>

text \<open>
  Characters are bytes and case conversion is the one of ASCII: a letter outside ASCII is
  a run of bytes that the slug expression replaces by a hyphen in any case.
\<close>

definition is_space :: "char \<Rightarrow> bool" where
  "is_space c = (c \<in> set [CHR '' '', CHR 0x09, CHR 0x0A, CHR 0x0B, CHR 0x0C, CHR 0x0D])"

definition trim :: "string \<Rightarrow> string" where
  "trim s = rev (dropWhile is_space (rev (dropWhile is_space s)))"

definition toLowerCase :: "string \<Rightarrow> string" where
  "toLowerCase s =
     map (\<lambda>c. case map_of (zip ''ABCDEFGHIJKLMNOPQRSTUVWXYZ'' ''abcdefghijklmnopqrstuvwxyz'') c of
                None \<Rightarrow> c | Some l \<Rightarrow> l) s"

definition is_lower_alnum :: "char \<Rightarrow> bool" where
  "is_lower_alnum c = (c \<in> set ''abcdefghijklmnopqrstuvwxyz0123456789'')"

text \<open>\<^verbatim>\<open>.replace(/[^a-z0-9]+/g, '-')\<close>; the flag says that the run has its hyphen already.\<close>

fun replace_runs :: "bool \<Rightarrow> string \<Rightarrow> string" where
  "replace_runs in_run [] = []"
| "replace_runs in_run (c # cs) =
     (if is_lower_alnum c then c # replace_runs False cs
      else if in_run then replace_runs True cs
      else CHR ''-'' # replace_runs True cs)"

text \<open>\<^verbatim>\<open>.replace(/(^-|-$)/g, '')\<close>: one hyphen at the start and one at the end.\<close>

definition strip_hyphens :: "string \<Rightarrow> string" where
  "strip_hyphens s =
     (let s1 = (case s of [] \<Rightarrow> [] | c # cs \<Rightarrow> if c = CHR ''-'' then cs else s)
      in if s1 \<noteq> [] \<and> last s1 = CHR ''-'' then butlast s1 else s1)"

definition slugify :: "string \<Rightarrow> string" where
  "slugify name = strip_hyphens (replace_runs False (toLowerCase name))"

fun string_of_nat :: "nat \<Rightarrow> string" where
  "string_of_nat n =
     (if n < 10 then [''0123456789'' ! n]
      else string_of_nat (n div 10) @ [''0123456789'' ! (n mod 10)])"

declare string_of_nat.simps [simp del]

subsection \<open>Constraints and triggers of the schema\<close>

definition subscription_tier_enhanced :: "string list" where
  "subscription_tier_enhanced =
     [''free_trial'', ''free'', ''pro_monthly'', ''pro_yearly'', ''team_monthly'',
      ''team_yearly'', ''enterprise'', ''enterprise_trial'', ''legacy'', ''suspended'',
      ''churned'']"

definition tech_stack :: "string list" where
  "tech_stack =
     [''react_typescript'', ''react_javascript'', ''nextjs'', ''vue_typescript'',
      ''vue_javascript'', ''angular'', ''svelte'', ''nodejs_express'', ''nodejs_fastify'',
      ''supabase'', ''firebase'', ''python_fastapi'', ''python_django'', ''go_gin'',
      ''rust_actix'']"

definition auth_method :: "string list" where
  "auth_method =
     [''email_password'', ''oauth_google'', ''oauth_github'', ''oauth_discord'',
      ''magic_link'', ''custom_jwt'']"

definition member_roles :: "string list" where
  "member_roles = [''owner'', ''admin'', ''member'', ''guest'']"

definition member_statuses :: "string list" where
  "member_statuses = [''pending'', ''active'', ''suspended'', ''removed'']"

text \<open>\<^verbatim>\<open>CONSTRAINT valid_slug CHECK (slug ~* '^[a-z0-9-]+$')\<close>, case-insensitive.\<close>

definition valid_slug :: "string \<Rightarrow> bool" where
  "valid_slug s = (s \<noteq> [] \<and> list_all (\<lambda>c. is_lower_alnum c \<or> c = CHR ''-'') (toLowerCase s))"

definition user_exists :: "db \<Rightarrow> uuid \<Rightarrow> bool" where
  "user_exists d uid = list_ex (\<lambda>u. u_id u = uid) (users d)"

definition team_exists :: "db \<Rightarrow> uuid \<Rightarrow> bool" where
  "team_exists d tid = list_ex (\<lambda>t. t_id t = tid) (teams d)"

text \<open>
  Insertion into \<^verbatim>\<open>teams\<close>: the primary key is generated; the insertion fails on the
  unique slug, on the slug check, on an unknown subscription tier, on a non-positive
  member limit and on the foreign key \<^verbatim>\<open>created_by\<close>.
\<close>

definition insert_team :: "db \<Rightarrow> (uuid \<Rightarrow> team) \<Rightarrow> (team \<times> db) option" where
  "insert_team d mk =
     (case uuid_generate_v4 d of (i, d1) \<Rightarrow>
        (let row = mk i in
         if list_ex (\<lambda>t. t_slug t = t_slug row) (teams d)
            \<or> \<not> valid_slug (t_slug row)
            \<or> t_subscription_tier row \<notin> set subscription_tier_enhanced
            \<or> t_member_limit row \<le> 0
            \<or> \<not> user_exists d (t_created_by row)
         then None
         else Some (row, d1\<lparr>teams := teams d1 @ [row]\<rparr>)))"

text \<open>
  Insertion into \<^verbatim>\<open>team_members\<close>: \<^verbatim>\<open>user_id\<close> is NOT NULL, role and status are
  checked, \<^verbatim>\<open>invitation_token\<close> is unique, \<^verbatim>\<open>(team_id, user_id)\<close> is unique, and
  \<^verbatim>\<open>team_id\<close>, \<^verbatim>\<open>user_id\<close> and \<^verbatim>\<open>invited_by\<close> are foreign keys.
\<close>

definition insert_team_member :: "db \<Rightarrow> (uuid \<Rightarrow> team_member) \<Rightarrow> (team_member \<times> db) option" where
  "insert_team_member d mk =
     (case uuid_generate_v4 d of (i, d1) \<Rightarrow>
        (let row = mk i in
         case tm_user_id row of
           None \<Rightarrow> None
         | Some uid \<Rightarrow>
             if tm_role row \<notin> set member_roles
                \<or> tm_status row \<notin> set member_statuses
                \<or> \<not> team_exists d (tm_team_id row)
                \<or> \<not> user_exists d uid
                \<or> (case tm_invited_by row of None \<Rightarrow> False | Some b \<Rightarrow> \<not> user_exists d b)
                \<or> list_ex (\<lambda>m. tm_team_id m = tm_team_id row \<and> tm_user_id m = Some uid) (team_members d)
                \<or> (case tm_invitation_token row of None \<Rightarrow> False
                    | Some k \<Rightarrow> list_ex (\<lambda>m. tm_invitation_token m = Some k) (team_members d))
             then None
             else Some (row, d1\<lparr>team_members := team_members d1 @ [row]\<rparr>)))"

text \<open>
  The trigger \<^verbatim>\<open>validate_team_ownership\<close>, before every update of \<^verbatim>\<open>users\<close>: a row
  whose \<^verbatim>\<open>current_team_id\<close> is set must belong to an active member of that team,
  otherwise the statement raises.
\<close>

definition validate_team_ownership :: "db \<Rightarrow> user \<Rightarrow> bool" where
  "validate_team_ownership d new =
     (case u_current_team_id new of
        None \<Rightarrow> True
      | Some t \<Rightarrow> list_ex (\<lambda>tm. tm_team_id tm = t \<and> tm_user_id tm = Some (u_id new)
                               \<and> tm_status tm = ''active'') (team_members d))"

text \<open>
  \<^verbatim>\<open>supabase.from('users').update(...).eq('id', userId)\<close>. No handler looks at the
  result of this statement: when the trigger raises, the rows stay as they were.
\<close>

definition update_users :: "db \<Rightarrow> uuid \<Rightarrow> (user \<Rightarrow> user) \<Rightarrow> db" where
  "update_users d uid f =
     (let new = map (\<lambda>u. if u_id u = uid then f u else u) (users d)
      in if list_all (\<lambda>u. u_id u = uid \<longrightarrow> validate_team_ownership d (f u)) (users d)
         then d\<lparr>users := new\<rparr> else d)"

definition insert_activity_log :: "db \<Rightarrow> activity_log \<Rightarrow> db" where
  "insert_activity_log d l = d\<lparr>activity_logs := activity_logs d @ [l]\<rparr>"

subsection \<open>Team management\<close>

record TeamCreateRequest =
  tc_name :: string
  tc_slug :: "string option"
  tc_description :: "string option"
  tc_subscription_tier :: "string option"

text \<open>
  The body of an invitation is the parsed JSON of the request. The interface declares
  the role as \<^verbatim>\<open>'admin' | 'member' | 'guest'\<close>, but nothing checks the body against
  the interface, and the handler writes the role it is given: it is any string. (A body
  without the key leaves the column to its default, \<^verbatim>\<open>'member'\<close>, like the body with
  that role.)
\<close>

record TeamInviteRequest =
  ti_email :: string
  ti_role :: string
  ti_message :: "string option"

text \<open>
  The body of a member update is untyped and is written to the row as it is. The model
  keeps the two columns of the membership state machine; an absent key leaves the column.
\<close>

record member_update =
  mu_role :: "string option"
  mu_status :: "string option"

datatype team_response =
    TeamCreated team
  | MemberInvited team_member string
  | InvitationAccepted team
  | MemberUpdated team_member

definition paid_tiers :: "string list" where
  "paid_tiers = [''pro_monthly'', ''pro_yearly'', ''team_monthly'', ''team_yearly'', ''enterprise'']"

text \<open>
  The loop that looks for a free slug. The model gives it as many rounds as the table has
  rows plus one, and \<open>None\<close> stands for a loop that has not ended by then; the rounds
  are shown to be enough below.
\<close>

fun slug_loop :: "nat \<Rightarrow> team list \<Rightarrow> string \<Rightarrow> nat \<Rightarrow> string option" where
  "slug_loop 0 ts slug counter = None"
| "slug_loop (Suc fuel) ts slug counter =
     (let testSlug = (if counter > 0 then slug @ ''-'' @ string_of_nat counter else slug)
      in case single (filter (\<lambda>t. t_slug t = testSlug) ts) of
           None \<Rightarrow> Some testSlug
         | Some existing \<Rightarrow> slug_loop fuel ts slug (counter + 1))"

text \<open>The row that \<^verbatim>\<open>handleCreateTeam\<close> inserts into \<^verbatim>\<open>teams\<close>; the member limit is the default of the column.\<close>

definition new_team :: "TeamCreateRequest \<Rightarrow> string \<Rightarrow> uuid \<Rightarrow> uuid \<Rightarrow> team" where
  "new_team teamData slug userId i =
     \<lparr>t_id = i, t_name = trim (tc_name teamData), t_slug = slug,
      t_description =
        (case tc_description teamData of None \<Rightarrow> None
         | Some x \<Rightarrow> if trim x = [] then None else Some (trim x)),
      t_subscription_tier =
        (case tc_subscription_tier teamData of None \<Rightarrow> ''team_monthly''
         | Some x \<Rightarrow> if x = [] then ''team_monthly'' else x),
      t_member_limit = 5, t_created_by = userId\<rparr>"

text \<open>The membership of the creator: owner and active.\<close>

definition owner_member :: "uuid \<Rightarrow> uuid \<Rightarrow> uuid \<Rightarrow> team_member" where
  "owner_member teamId userId i =
     \<lparr>tm_id = i, tm_team_id = teamId, tm_user_id = Some userId, tm_role = ''owner'',
      tm_status = ''active'', tm_invitation_token = None, tm_invited_by = None\<rparr>"

definition handleCreateTeam ::
  "db \<Rightarrow> uuid \<Rightarrow> TeamCreateRequest \<Rightarrow> string \<Rightarrow> ((error + team_response) \<times> db) option" where
  "handleCreateTeam d userId teamData userTier =
     (if userTier \<notin> set paid_tiers
      then Some (Inl (ForbiddenError ''Team features require a Pro or Team subscription''), d)
      else if tc_name teamData = [] \<or> length (trim (tc_name teamData)) < 2
      then Some (Inl (ValidationError ''Team name must be at least 2 characters''), d)
      else
        (let slug0 = (case tc_slug teamData of
                        None \<Rightarrow> slugify (tc_name teamData)
                      | Some g \<Rightarrow> if g = [] then slugify (tc_name teamData) else g)
         in case slug_loop (Suc (length (teams d))) (teams d) slug0 0 of
              None \<Rightarrow> None
            | Some slug \<Rightarrow>
               (case insert_team d (new_team teamData slug userId) of
                  None \<Rightarrow> Some (Inl (InternalError ''Failed to create team''), d)
                | Some (team, d1) \<Rightarrow>
                   (case insert_team_member d1 (owner_member (t_id team) userId) of
                      None \<Rightarrow> Some (Inl (InternalError ''Failed to create team''), d1)
                    | Some (m, d2) \<Rightarrow>
                       (let d3 = update_users d2 userId
                                   (\<lambda>u. u\<lparr>u_current_team_id := Some (t_id team), u_is_team_owner := True\<rparr>);
                            d4 = insert_activity_log d3
                                   \<lparr>al_user_id = Some userId, al_team_id = Some (t_id team),
                                    al_action = ''team_created'', al_resource_type = ''team'',
                                    al_resource_id = Some (t_id team)\<rparr>
                        in Some (Inr (TeamCreated team), d4))))))"

text \<open>
  \<^verbatim>\<open>/^[^\s@]+@[^\s@]+\.[^\s@]+$/\<close>: no white space (of ASCII), exactly one \<^verbatim>\<open>@\<close>
  with something before it, and after it a dot that is neither the first nor the last
  character. The link of the invitation is kept without the address of the front end.
\<close>

definition emailRegex_test :: "string \<Rightarrow> bool" where
  "emailRegex_test s =
     (let l = takeWhile (\<lambda>c. c \<noteq> CHR ''@'') s; r = dropWhile (\<lambda>c. c \<noteq> CHR ''@'') s
      in l \<noteq> [] \<and> r \<noteq> [] \<and> \<not> list_ex is_space s
         \<and> \<not> list_ex (\<lambda>c. c = CHR ''@'') (tl r)
         \<and> list_ex (\<lambda>i. tl r ! i = CHR ''.'') [1 ..< length (tl r) - 1])"

definition handleInviteMember ::
  "db \<Rightarrow> uuid \<Rightarrow> uuid \<Rightarrow> TeamInviteRequest \<Rightarrow> string \<Rightarrow> (error + team_response) \<times> db" where
  "handleInviteMember d userId teamId inviteData inviteToken =
     (let membership = single (filter (\<lambda>m. tm_team_id m = teamId \<and> tm_user_id m = Some userId)
                                 (team_members d))
      in if (case membership of None \<Rightarrow> True
             | Some m \<Rightarrow> tm_status m \<noteq> ''active'' \<or> tm_role m \<notin> set [''owner'', ''admin''])
         then (Inl (ForbiddenError ''Permission denied''), d)
         else if \<not> emailRegex_test (ti_email inviteData)
         then (Inl (ValidationError ''Invalid email address''), d)
         else
           (let existingUser = single (filter (\<lambda>u. u_email u = ti_email inviteData) (users d));
                existingMember =
                  (case existingUser of None \<Rightarrow> None
                   | Some u \<Rightarrow> single (filter (\<lambda>m. tm_team_id m = teamId \<and> tm_user_id m = Some (u_id u))
                                        (team_members d)))
            in case existingMember of
                 Some em \<Rightarrow>
                   (Inl (ValidationError (if tm_status em = ''active''
                                          then ''User is already a team member''
                                          else ''User has a pending invitation'')), d)
               | None \<Rightarrow>
                   (case insert_team_member d (\<lambda>i. \<lparr>tm_id = i, tm_team_id = teamId,
                            tm_user_id = map_option u_id existingUser,
                            tm_role = ti_role inviteData, tm_status = ''pending'',
                            tm_invitation_token = Some inviteToken,
                            tm_invited_by = Some userId\<rparr>) of
                      None \<Rightarrow> (Inl (InternalError ''Failed to send invitation''), d)
                    | Some (invitation, d1) \<Rightarrow>
                        (Inr (MemberInvited invitation (''/team/invite?token='' @ inviteToken)),
                         insert_activity_log d1
                           \<lparr>al_user_id = Some userId, al_team_id = Some teamId,
                            al_action = ''member_invited'', al_resource_type = ''team_member'',
                            al_resource_id = None\<rparr>))))"

text \<open>
  The update of the accepted row, \<^verbatim>\<open>.update({...}).eq('id', invitation.id)\<close>. It fails
  when the accepting user is unknown or has another row in the same team.
\<close>

definition accept_update :: "db \<Rightarrow> team_member \<Rightarrow> uuid \<Rightarrow> db option" where
  "accept_update d invitation userId =
     (if \<not> user_exists d userId
         \<or> list_ex (\<lambda>m. tm_id m \<noteq> tm_id invitation \<and> tm_team_id m = tm_team_id invitation
                         \<and> tm_user_id m = Some userId) (team_members d)
      then None
      else Some (d\<lparr>team_members :=
                     map (\<lambda>m. if tm_id m = tm_id invitation
                               then m\<lparr>tm_user_id := Some userId, tm_status := ''active'',
                                      tm_invitation_token := None\<rparr>
                               else m) (team_members d)\<rparr>))"

definition handleAcceptInvitation :: "db \<Rightarrow> uuid \<Rightarrow> string \<Rightarrow> (error + team_response) \<times> db" where
  "handleAcceptInvitation d userId inviteToken =
     (case single (filter (\<lambda>m. tm_invitation_token m = Some inviteToken \<and> tm_status m = ''pending'')
                     (team_members d)) of
        None \<Rightarrow> (Inl (NotFoundError ''Invalid or expired invitation''), d)
      | Some invitation \<Rightarrow>
          if tm_user_id invitation \<noteq> None \<and> tm_user_id invitation \<noteq> Some userId
          then (Inl (ForbiddenError ''This invitation is not for your account''), d)
          else
            (case single (filter (\<lambda>t. t_id t = tm_team_id invitation) (teams d)) of
               None \<Rightarrow> (Inl (InternalError ''Failed to accept invitation''), d)
             | Some team \<Rightarrow>
                 (let currentMemberCount =
                        int (length (filter (\<lambda>m. tm_team_id m = t_id team) (team_members d)))
                  in if currentMemberCount \<ge> t_member_limit team
                     then (Inl (ValidationError ''Team has reached member limit''), d)
                     else
                       (case accept_update d invitation userId of
                          None \<Rightarrow> (Inl (InternalError ''Failed to accept invitation''), d)
                        | Some d1 \<Rightarrow>
                            (let userData = single (filter (\<lambda>u. u_id u = userId) (users d1));
                                 d2 = (if (case userData of None \<Rightarrow> True
                                           | Some u \<Rightarrow> u_current_team_id u = None)
                                       then update_users d1 userId
                                              (\<lambda>u. u\<lparr>u_current_team_id := Some (tm_team_id invitation)\<rparr>)
                                       else d1);
                                 d3 = insert_activity_log d2
                                        \<lparr>al_user_id = Some userId,
                                         al_team_id = Some (tm_team_id invitation),
                                         al_action = ''invitation_accepted'',
                                         al_resource_type = ''team_member'', al_resource_id = None\<rparr>
                             in (Inr (InvitationAccepted team), d3))))))"

text \<open>
  \<^verbatim>\<open>.update(updateData).eq('id', memberId).select().single()\<close>: the checks on role and
  status reject the statement; a statement that does not return exactly one row is an
  error and changes nothing (the identifier is the primary key, so the row found before
  is the one row updated).
\<close>

definition apply_member_update :: "member_update \<Rightarrow> team_member \<Rightarrow> team_member" where
  "apply_member_update upd m =
     m\<lparr>tm_role := (case mu_role upd of None \<Rightarrow> tm_role m | Some r \<Rightarrow> r),
       tm_status := (case mu_status upd of None \<Rightarrow> tm_status m | Some st \<Rightarrow> st)\<rparr>"

definition handleUpdateMember ::
  "db \<Rightarrow> uuid \<Rightarrow> uuid \<Rightarrow> uuid \<Rightarrow> member_update \<Rightarrow> (error + team_response) \<times> db" where
  "handleUpdateMember d userId teamId memberId updateData =
     (case single (filter (\<lambda>m. tm_team_id m = teamId \<and> tm_user_id m = Some userId)
                     (team_members d)) of
        None \<Rightarrow> (Inl (ForbiddenError ''Permission denied''), d)
      | Some adminMembership \<Rightarrow>
          if tm_status adminMembership \<noteq> ''active''
             \<or> tm_role adminMembership \<notin> set [''owner'', ''admin'']
          then (Inl (ForbiddenError ''Permission denied''), d)
          else
            (case single (filter (\<lambda>m. tm_id m = memberId \<and> tm_team_id m = teamId) (team_members d)) of
               None \<Rightarrow> (Inl (NotFoundError ''Member not found''), d)
             | Some targetMember \<Rightarrow>
                 if tm_role targetMember = ''owner'' \<and> tm_role adminMembership \<noteq> ''owner''
                 then (Inl (ForbiddenError ''Only team owners can modify owner permissions''), d)
                 else
                   (let new = map (\<lambda>m. if tm_id m = memberId then apply_member_update updateData m else m)
                                (team_members d)
                    in if (case mu_role updateData of None \<Rightarrow> False | Some r \<Rightarrow> r \<notin> set member_roles)
                          \<or> (case mu_status updateData of None \<Rightarrow> False | Some st \<Rightarrow> st \<notin> set member_statuses)
                       then (Inl (InternalError ''Failed to update member''), d)
                       else
                         (case single (filter (\<lambda>m. tm_id m = memberId) new) of
                            None \<Rightarrow> (Inl (InternalError ''Failed to update member''), d)
                          | Some updatedMember \<Rightarrow>
                              (Inr (MemberUpdated updatedMember), d\<lparr>team_members := new\<rparr>)))))"

text \<open>
  What a request carries as its credential: no \<^verbatim>\<open>Authorization\<close> header, or a
  header whose bearer token the identity provider resolves to a user or rejects.
\<close>

datatype credential = NoAuthorization | Authorization "uuid option"

text \<open>
  The entry point of the team service (the handler given to \<^verbatim>\<open>serve\<close>): the caller
  must be authenticated and have an active account, and the request is routed by method
  and path. \<open>rnd\<close> is the value of
  \<^verbatim>\<open>crypto.randomUUID()\<close>.
\<close>

datatype team_request =
    PostCreateTeam TeamCreateRequest
  | PostInvite "uuid option" TeamInviteRequest
  | PostAcceptInvite "string option"
  | PutMember uuid uuid member_update

definition team_management ::
  "db \<Rightarrow> credential \<Rightarrow> string \<Rightarrow> team_request \<Rightarrow> ((error + team_response) \<times> db) option" where
  "team_management d auth rnd req =
     (case auth of
        NoAuthorization \<Rightarrow> Some (Inl (UnauthorizedError ''Authentication required''), d)
      | Authorization None \<Rightarrow> Some (Inl (UnauthorizedError ''Invalid authentication''), d)
      | Authorization (Some userId) \<Rightarrow>
          (case single (filter (\<lambda>u. u_id u = userId) (users d)) of
             None \<Rightarrow> Some (Inl (ForbiddenError ''Account suspended''), d)
           | Some userData \<Rightarrow>
               if \<not> u_is_active userData
               then Some (Inl (ForbiddenError ''Account suspended''), d)
               else
                 (case req of
                    PostInvite teamId inviteData \<Rightarrow>
                      (case teamId of
                         None \<Rightarrow> Some (Inl (ValidationError ''Team ID required for invitations''), d)
                       | Some t \<Rightarrow> Some (handleInviteMember d userId t inviteData rnd))
                  | PostAcceptInvite inviteToken \<Rightarrow>
                      (case inviteToken of
                         None \<Rightarrow> Some (Inl (ValidationError ''Invite token required''), d)
                       | Some k \<Rightarrow>
                           if k = [] then Some (Inl (ValidationError ''Invite token required''), d)
                           else Some (handleAcceptInvitation d userId k))
                  | PostCreateTeam teamData \<Rightarrow>
                      handleCreateTeam d userId teamData (u_subscription_tier userData)
                  | PutMember teamId memberId memberUpdate \<Rightarrow>
                      Some (handleUpdateMember d userId teamId memberId memberUpdate))))"

subsection \<open>Scaffold generation\<close>

record GenerateScaffoldRequest =
  rq_appIdea :: string
  rq_frontendStack :: string
  rq_backendStack :: "string option"
  rq_authType :: "string option"
  rq_templateId :: "uuid option"

datatype file_entry = Files "string list" | Folder "(string \<times> file_entry) list"

type_synonym FileStructure = "(string \<times> file_entry) list"

record GeneratedScaffold =
  projectStructure :: FileStructure
  databaseSchema :: "string list"
  apiEndpoints :: "string list"
  environmentVariables :: "(string \<times> string) list"
  dependencies :: "(string \<times> string) list"
  deploymentConfig :: "(string \<times> string) list"
  securityRecommendations :: "string list"

text \<open>
  The reply of the generator after \<^verbatim>\<open>JSON.parse\<close>: a key is \<open>None\<close> when it is absent
  or falsy.
\<close>

record parsed_reply =
  r_projectStructure :: "FileStructure option"
  r_databaseSchema :: "string list option"
  r_apiEndpoints :: "string list option"
  r_environmentVariables :: "(string \<times> string) list option"
  r_dependencies :: "(string \<times> string) list option"
  r_deploymentConfig :: "(string \<times> string) list option"
  r_securityRecommendations :: "string list option"

text \<open>
  What the request to the external service gives: an exception (the connection fails, or
  the answer has no \<^verbatim>\<open>choices[0].message.content\<close>), a status that is not ok (with
  its text), or a content that \<^verbatim>\<open>JSON.parse\<close> accepts (\<open>Some\<close>) or rejects
  (\<open>None\<close>).
\<close>

datatype ai_reply = FetchFailed string | HttpNotOk string | Content "parsed_reply option"

definition generateDefaultStructure :: "string \<Rightarrow> string option \<Rightarrow> FileStructure" where
  "generateDefaultStructure frontend backend =
     [(''src'', Folder [(''components'', Files [''ui'', ''layout'', ''forms'']),
                        (''pages'', Files [''Home.tsx'', ''About.tsx'']),
                        (''hooks'', Files [''useAuth.ts'', ''useApi.ts'']),
                        (''lib'', Files [''utils.ts'', ''constants.ts'']),
                        (''types'', Files [''index.ts''])]),
      (''public'', Files [''favicon.ico'', ''manifest.json'']),
      (''docs'', Files [''README.md'', ''DEPLOYMENT.md''])]
     @ (if backend = Some ''supabase''
        then [(''supabase'', Folder [(''migrations'', Files [''001_initial.sql'']),
                                     (''functions'', Files [''api-handler''])])]
        else [])"

definition generateDefaultEnvVars :: "string \<Rightarrow> string option \<Rightarrow> (string \<times> string) list" where
  "generateDefaultEnvVars frontend backend =
     [(''NODE_ENV'', ''development''), (''VITE_APP_NAME'', ''My App'')]
     @ (if backend = Some ''supabase''
        then [(''VITE_SUPABASE_URL'', ''your_supabase_url''),
              (''VITE_SUPABASE_ANON_KEY'', ''your_supabase_anon_key'')]
        else [])"

fun string_includes :: "string \<Rightarrow> string \<Rightarrow> bool" where
  "string_includes [] sub = (sub = [])"
| "string_includes (c # cs) sub = (take (length sub) (c # cs) = sub \<or> string_includes cs sub)"

definition generateDefaultDependencies :: "string \<Rightarrow> string option \<Rightarrow> (string \<times> string) list" where
  "generateDefaultDependencies frontend backend =
     [(''react'', ''^18.2.0''), (''react-dom'', ''^18.2.0''), (''typescript'', ''^5.0.0'')]
     @ (if string_includes frontend ''nextjs'' then [(''next'', ''^14.0.0'')] else [])
     @ (if backend = Some ''supabase'' then [(''@supabase/supabase-js'', ''^2.38.0'')] else [])"

definition generateDefaultDeployment :: "string \<Rightarrow> (string \<times> string) list" where
  "generateDefaultDeployment frontend =
     [(''platform'', ''vercel''), (''buildCommand'', ''npm run build''),
      (''outputDirectory'', ''dist''), (''nodeVersion'', ''18.x'')]"

definition generateDefaultSecurity :: "string list" where
  "generateDefaultSecurity =
     [''Enable Row Level Security (RLS) on all database tables'',
      ''Use environment variables for all secrets and API keys'',
      ''Implement proper input validation and sanitization'',
      ''Add CORS headers and CSP policies'',
      ''Use HTTPS in production'',
      ''Implement rate limiting on API endpoints'',
      ''Regular security audits and dependency updates'']"

fun split_on :: "char \<Rightarrow> string \<Rightarrow> string list" where
  "split_on sep [] = [[]]"
| "split_on sep (c # cs) =
     (if c = sep then [] # split_on sep cs
      else (case split_on sep cs of [] \<Rightarrow> [[c]] | w # ws \<Rightarrow> (c # w) # ws))"

fun join :: "string \<Rightarrow> string list \<Rightarrow> string" where
  "join sep [] = []"
| "join sep [w] = w"
| "join sep (w # v # ws) = w @ sep @ join sep (v # ws)"

definition generateProjectName :: "string \<Rightarrow> string" where
  "generateProjectName idea =
     (let words = take 3 (filter (\<lambda>w. length w > 3)
                    (split_on (CHR '' '')
                       (filter (\<lambda>c. is_lower_alnum c \<or> is_space c) (toLowerCase idea))));
          name = join ''-'' words
      in if name = [] then ''my-app'' else name)"

text \<open>
  \<^verbatim>\<open>generateScaffoldWithAI\<close>. \<open>apiKey\<close> is the environment variable
  \<^verbatim>\<open>OPENAI_API_KEY\<close> and \<open>reply\<close> what the service answers to the request, which is
  recorded in the state when it is sent. An exception is an \<open>Inl\<close> with its message.
\<close>

definition generateScaffoldWithAI ::
  "db \<Rightarrow> string option \<Rightarrow> ai_reply \<Rightarrow> GenerateScaffoldRequest \<Rightarrow> (string + GeneratedScaffold) \<times> db" where
  "generateScaffoldWithAI d apiKey reply params =
     (let baseTemplate =
            (case rq_templateId params of None \<Rightarrow> None
             | Some t \<Rightarrow> single (filter (\<lambda>tp. tp_id tp = t) (templates d)));
          request = \<lparr>pr_appIdea = rq_appIdea params, pr_frontendStack = rq_frontendStack params,
                     pr_backendStack = (case rq_backendStack params of None \<Rightarrow> ''None specified''
                                        | Some b \<Rightarrow> if b = [] then ''None specified'' else b),
                     pr_authType = (case rq_authType params of None \<Rightarrow> ''None specified''
                                    | Some a \<Rightarrow> if a = [] then ''None specified'' else a),
                     pr_baseTemplate = map_option tp_id baseTemplate\<rparr>;
          f = rq_frontendStack params; b = rq_backendStack params;
          defaults = \<lparr>projectStructure = generateDefaultStructure f b,
                      databaseSchema = [], apiEndpoints = [],
                      environmentVariables = generateDefaultEnvVars f b,
                      dependencies = generateDefaultDependencies f b,
                      deploymentConfig = generateDefaultDeployment f,
                      securityRecommendations = generateDefaultSecurity\<rparr>
      in if apiKey = None \<or> apiKey = Some []
         then (Inl ''OpenAI API key not configured'', d)
         else
           (let d1 = d\<lparr>openai_requests := openai_requests d @ [request]\<rparr>
            in case reply of
                 FetchFailed message \<Rightarrow> (Inl message, d1)
               | HttpNotOk statusText \<Rightarrow> (Inl (''OpenAI API error: '' @ statusText), d1)
               | Content None \<Rightarrow> (Inr defaults, d1)
               | Content (Some scaffold) \<Rightarrow>
                   (Inr \<lparr>projectStructure =
                           (case r_projectStructure scaffold of None \<Rightarrow> projectStructure defaults | Some v \<Rightarrow> v),
                         databaseSchema =
                           (case r_databaseSchema scaffold of None \<Rightarrow> [] | Some v \<Rightarrow> v),
                         apiEndpoints =
                           (case r_apiEndpoints scaffold of None \<Rightarrow> [] | Some v \<Rightarrow> v),
                         environmentVariables =
                           (case r_environmentVariables scaffold of None \<Rightarrow> environmentVariables defaults | Some v \<Rightarrow> v),
                         dependencies =
                           (case r_dependencies scaffold of None \<Rightarrow> dependencies defaults | Some v \<Rightarrow> v),
                         deploymentConfig =
                           (case r_deploymentConfig scaffold of None \<Rightarrow> deploymentConfig defaults | Some v \<Rightarrow> v),
                         securityRecommendations =
                           (case r_securityRecommendations scaffold of None \<Rightarrow> securityRecommendations defaults | Some v \<Rightarrow> v)\<rparr>,
                    d1)))"

text \<open>
  Insertion into \<^verbatim>\<open>projects\<close>, with the enumerated stacks, the foreign keys and the
  two triggers after insertion: \<^verbatim>\<open>handle_project_activity\<close> appends an activity log
  and \<^verbatim>\<open>increment_template_usage\<close> counts the use of the template.
\<close>

definition insert_project :: "db \<Rightarrow> (uuid \<Rightarrow> project) \<Rightarrow> (project \<times> db) option" where
  "insert_project d mk =
     (case uuid_generate_v4 d of (i, d1) \<Rightarrow>
        (let row = mk i in
         if p_frontend_stack row \<notin> set tech_stack
            \<or> (case p_backend_stack row of None \<Rightarrow> False | Some b \<Rightarrow> b \<notin> set tech_stack)
            \<or> (case p_auth_method row of None \<Rightarrow> False | Some a \<Rightarrow> a \<notin> set auth_method)
            \<or> \<not> user_exists d (p_user_id row)
            \<or> (case p_team_id row of None \<Rightarrow> False | Some t \<Rightarrow> \<not> team_exists d t)
            \<or> (case p_template_id row of None \<Rightarrow> False
                | Some t \<Rightarrow> \<not> list_ex (\<lambda>tp. tp_id tp = t) (templates d))
         then None
         else Some (row,
                d1\<lparr>projects := projects d1 @ [row],
                   activity_logs := activity_logs d1 @
                     [\<lparr>al_user_id = Some (p_user_id row), al_team_id = None,
                       al_action = ''project_created'', al_resource_type = ''project'',
                       al_resource_id = Some (p_id row)\<rparr>],
                   templates := map (\<lambda>tp. if Some (tp_id tp) = p_template_id row
                                           then tp\<lparr>tp_usage_count := tp_usage_count tp + 1\<rparr> else tp)
                                  (templates d1)\<rparr>)))"

text \<open>The table of limits of the handler; \<open>-1\<close> is unlimited.\<close>

definition limits :: "(string \<times> int) list" where
  "limits = [(''free'', 3), (''pro'', 50), (''team'', 100), (''enterprise'', -1)]"

datatype scaffold_response = ScaffoldGenerated project GeneratedScaffold

text \<open>
  The check of the generation limit, with the response of status 429 when the limit is
  reached. A tier without an entry in \<open>limits\<close> gives an undefined limit: it is
  different from \<open>-1\<close> and no count is at least it, so nothing is reached.
\<close>

definition limit_reached :: "user \<Rightarrow> error option" where
  "limit_reached userData =
     (case map_of limits (u_subscription_tier userData) of
        None \<Rightarrow> None
      | Some userLimit \<Rightarrow>
          if userLimit \<noteq> -1 \<and> u_monthly_generations userData \<ge> userLimit
          then Some (QuotaExceededError userLimit (u_monthly_generations userData))
          else None)"

text \<open>
  The handler of \<^verbatim>\<open>generate-scaffold\<close> (given to \<^verbatim>\<open>serve\<close>); \<open>now\<close> is the
  clock of the database and \<open>body\<close> the parsed body of the request.
  Without a header the handler fails on the missing value, which, like every exception,
  is answered with status 500 and the message of the exception. The trigger that derives
  the slug of a project is left out with the column.
\<close>

definition generate_scaffold ::
  "db \<Rightarrow> credential \<Rightarrow> string option \<Rightarrow> ai_reply \<Rightarrow> timestamptz \<Rightarrow> GenerateScaffoldRequest
     \<Rightarrow> (error + scaffold_response) \<times> db" where
  "generate_scaffold d auth apiKey reply now body =
     (case auth of
        NoAuthorization \<Rightarrow> (Inl (InternalError ''Cannot read properties of null''), d)
      | Authorization None \<Rightarrow> (Inl (UnauthorizedError ''Unauthorized''), d)
      | Authorization (Some uid) \<Rightarrow>
          (case single (filter (\<lambda>u. u_id u = uid) (users d)) of
             None \<Rightarrow> (Inl (NotFoundError ''User not found''), d)
           | Some userData \<Rightarrow>
             (case limit_reached userData of
                Some quota \<Rightarrow> (Inl quota, d)
              | None \<Rightarrow>
               if rq_appIdea body = [] \<or> rq_frontendStack body = []
               then (Inl (ValidationError ''Missing required fields: appIdea, frontendStack''), d)
               else
                 (case generateScaffoldWithAI d apiKey reply body of
                    (Inl message, d1) \<Rightarrow> (Inl (InternalError message), d1)
                  | (Inr scaffold, d1) \<Rightarrow>
                      (case insert_project d1 (\<lambda>i. \<lparr>p_id = i, p_user_id = uid, p_team_id = None,
                               p_template_id = rq_templateId body,
                               p_name = generateProjectName (rq_appIdea body),
                               p_description = rq_appIdea body,
                               p_frontend_stack = rq_frontendStack body,
                               p_backend_stack = rq_backendStack body,
                               p_auth_method = rq_authType body,
                               p_status = ''generated'', p_visibility = Some ''private'',
                               p_is_public = Some False, p_created_at = now,
                               p_deleted_at = None\<rparr>) of
                         None \<Rightarrow> (Inl (InternalError ''Failed to save project''), d1)
                       | Some (project, d2) \<Rightarrow>
                           (let d3 = update_users d2 uid
                                       (\<lambda>u. u\<lparr>u_monthly_generations := u_monthly_generations userData + 1,
                                              u_projects_generated := u_projects_generated userData + 1\<rparr>);
                                d4 = d3\<lparr>usage_analytics := usage_analytics d3 @
                                          [\<lparr>ue_user_id = uid, ue_event_type = ''scaffold_generated'',
                                            ue_project_id = Some (p_id project)\<rparr>]\<rparr>
                            in (Inr (ScaffoldGenerated project scaffold), d4)))))))"

subsection \<open>Projects\<close>

datatype projects_response = ProjectList "project list" | ProjectRow project | ProjectDeleted

text \<open>
  \<^verbatim>\<open>handleGetProjects\<close>: the rows of the caller, newest first, and with an identifier
  the one row of that identifier among them; \<^verbatim>\<open>.single()\<close> without exactly one row
  is an error, which the handler throws and answers with status 500.
\<close>

definition handleGetProjects :: "db \<Rightarrow> uuid \<Rightarrow> uuid option \<Rightarrow> error + projects_response" where
  "handleGetProjects d userId projectId =
     (let query = rev (sort_key p_created_at (filter (\<lambda>p. p_user_id p = userId) (projects d)))
      in case projectId of
           None \<Rightarrow> Inr (ProjectList query)
         | Some pid \<Rightarrow>
             (case single (filter (\<lambda>p. p_id p = pid) query) of
                None \<Rightarrow> Inl (InternalError ''Failed to fetch projects'')
              | Some p \<Rightarrow> Inr (ProjectRow p)))"

text \<open>
  \<^verbatim>\<open>handleDeleteProject\<close>: \<^verbatim>\<open>.delete().eq('id', projectId)\<close> removes the row, and
  with it the collaborators that reference it (\<^verbatim>\<open>ON DELETE CASCADE\<close>).
\<close>

definition handleDeleteProject :: "db \<Rightarrow> uuid \<Rightarrow> uuid \<Rightarrow> (error + projects_response) \<times> db" where
  "handleDeleteProject d userId projectId =
     (case single (filter (\<lambda>p. p_id p = projectId) (projects d)) of
        None \<Rightarrow> (Inl (NotFoundError ''Project not found or access denied''), d)
      | Some existingProject \<Rightarrow>
          if p_user_id existingProject \<noteq> userId
          then (Inl (NotFoundError ''Project not found or access denied''), d)
          else (Inr ProjectDeleted,
                d\<lparr>projects := filter (\<lambda>p. p_id p \<noteq> projectId) (projects d),
                  project_collaborators :=
                    filter (\<lambda>c. pc_project_id c \<noteq> projectId) (project_collaborators d)\<rparr>))"

text \<open>
  The entry point of the project service, for reads and deletions; without a header it
  fails on the missing value and answers with status 500.
\<close>

datatype project_request = GetProjects "uuid option" | DeleteProject "uuid option"

definition manage_projects ::
  "db \<Rightarrow> credential \<Rightarrow> project_request \<Rightarrow> (error + projects_response) \<times> db" where
  "manage_projects d auth req =
     (case auth of
        NoAuthorization \<Rightarrow> (Inl (InternalError ''Internal server error''), d)
      | Authorization None \<Rightarrow> (Inl (UnauthorizedError ''Unauthorized''), d)
      | Authorization (Some userId) \<Rightarrow>
          (case req of
             GetProjects projectId \<Rightarrow> (handleGetProjects d userId projectId, d)
           | DeleteProject None \<Rightarrow> (Inl (ValidationError ''Project ID required for deletion''), d)
           | DeleteProject (Some projectId) \<Rightarrow> handleDeleteProject d userId projectId))"

subsection \<open>Templates\<close>

text \<open>
  The filter \<^verbatim>\<open>.eq('deleted_at', null)\<close> of the template reads. The client writes the
  value of an \<^verbatim>\<open>eq\<close> filter into the query string as text, here
  \<^verbatim>\<open>deleted_at=eq.null\<close>, and the server compares the column with the text
  \<^verbatim>\<open>null\<close>. The column is a timestamp and this text is not one, so the database
  rejects the statement whatever rows the table holds: the query answers with an error and
  no data. (The test for NULL is the filter \<^verbatim>\<open>.is\<close>; the policies write
  \<^verbatim>\<open>deleted_at IS NULL\<close>.)
\<close>

definition eq_deleted_at_null :: "template list \<Rightarrow> template list option" where
  "eq_deleted_at_null rows = None"

text \<open>
  The row that the select of \<^verbatim>\<open>handleGetTemplate\<close> answers with: the columns of the
  template (\<^verbatim>\<open>*\<close>), and under the key \<^verbatim>\<open>created_by\<close> the embedded user of
  \<^verbatim>\<open>created_by:users!templates_created_by_fkey(...)\<close>, which takes the place of the
  column of that name: an object, or null when the template has no creator.
\<close>

datatype json = JsonNull | JsonString uuid | JsonObject user

record selected_template =
  st_columns :: template
  st_created_by :: json

definition select_template :: "db \<Rightarrow> template \<Rightarrow> selected_template" where
  "select_template d t =
     \<lparr>st_columns = t,
      st_created_by =
        (case tp_created_by t of
           None \<Rightarrow> JsonNull
         | Some c \<Rightarrow> (case single (filter (\<lambda>u. u_id u = c) (users d)) of
                        None \<Rightarrow> JsonNull
                      | Some u \<Rightarrow> JsonObject u))\<rparr>"

text \<open>
  The comparison \<^verbatim>\<open>===\<close> of a value of a response with a string: a string equals the
  same string, and neither null nor an object equals a string.
\<close>

fun strict_equals :: "json \<Rightarrow> uuid \<Rightarrow> bool" where
  "strict_equals (JsonString a) b = (a = b)"
| "strict_equals JsonNull b = False"
| "strict_equals (JsonObject u) b = False"

text \<open>
  \<^verbatim>\<open>checkTemplateAccess\<close>; \<open>user\<close> is the authenticated caller, if any, and
  \<open>template\<close> the row as the handler selected it.
\<close>

definition checkTemplateAccess :: "db \<Rightarrow> selected_template \<Rightarrow> uuid option \<Rightarrow> bool" where
  "checkTemplateAccess d template user =
     (let visibility = tp_visibility (st_columns template);
          team_id = tp_team_id (st_columns template)
      in if visibility = ''public'' \<or> visibility = ''unlisted'' then True
      else case user of
        None \<Rightarrow> False
      | Some uid \<Rightarrow>
          if strict_equals (st_created_by template) uid then True
          else if visibility = ''premium''
          then (case single (filter (\<lambda>u. u_id u = uid) (users d)) of
                  None \<Rightarrow> False
                | Some userData \<Rightarrow> u_subscription_tier userData \<noteq> []
                                    \<and> u_subscription_tier userData \<in> set paid_tiers)
          else if visibility = ''team'' \<and> team_id \<noteq> None
          then (case single (filter (\<lambda>m. Some (tm_team_id m) = team_id
                                          \<and> tm_user_id m = Some uid) (team_members d)) of
                  None \<Rightarrow> False
                | Some membership \<Rightarrow> tm_status membership = ''active'')
          else False)"

text \<open>
  \<^verbatim>\<open>handleGetTemplate\<close>. The error of the query is thrown and answered with status
  500; \<^verbatim>\<open>.single()\<close> answers with an error as well when the rows are not exactly one.
\<close>

definition handleGetTemplate ::
  "db \<Rightarrow> uuid \<Rightarrow> uuid option \<Rightarrow> (error + selected_template) \<times> db" where
  "handleGetTemplate d templateId user =
     (let result = map_option single
                     (eq_deleted_at_null (filter (\<lambda>t. tp_id t = templateId) (templates d)));
          data = (case result of None \<Rightarrow> None | Some row \<Rightarrow> row);
          error = (data = None)
      in if error then (Inl (InternalError ''Failed to fetch template''), d)
         else case data of
           None \<Rightarrow> (Inl (NotFoundError ''Template not found''), d)
         | Some row \<Rightarrow>
             (let template = select_template d row
              in if \<not> checkTemplateAccess d template user
                 then (Inl (ForbiddenError ''Access denied''), d)
                 else
                   (let d1 = d\<lparr>templates :=
                                map (\<lambda>t. if tp_id t = templateId
                                          then t\<lparr>tp_view_count := tp_view_count row + 1\<rparr> else t)
                                  (templates d)\<rparr>;
                        d2 = (case user of
                                None \<Rightarrow> d1
                              | Some uid \<Rightarrow> insert_activity_log d1
                                  \<lparr>al_user_id = Some uid, al_team_id = None,
                                   al_action = ''template_viewed'', al_resource_type = ''template'',
                                   al_resource_id = Some templateId\<rparr>)
                    in (Inr template, d2))))"

text \<open>\<^verbatim>\<open>CREATE POLICY "templates_select_access" ON public.templates FOR SELECT USING (...)\<close>\<close>

definition sql_in :: "'a option \<Rightarrow> 'a list \<Rightarrow> sqlbool" where
  "sql_in a xs = (case a of None \<Rightarrow> None | Some x \<Rightarrow> Some (x \<in> set xs))"

definition templates_select_access :: "db \<Rightarrow> uuid option \<Rightarrow> template \<Rightarrow> sqlbool" where
  "templates_select_access d auth_uid t =
     sql_and (sql_is_null (tp_deleted_at t))
       (sql_or (sql_eq (Some (tp_visibility t)) (Some ''public''))
       (sql_or (sql_and (sql_eq (Some (tp_visibility t)) (Some ''premium''))
                  (sql_exists (\<lambda>u.
                      sql_and (sql_eq (Some (u_id u)) auth_uid)
                     (sql_and (sql_in (Some (u_subscription_tier u)) paid_tiers)
                              (sql_eq (Some (u_is_active u)) (Some True))))
                    (users d)))
       (sql_or (sql_and (sql_eq (Some (tp_visibility t)) (Some ''team''))
               (sql_and (sql_is_not_null (tp_team_id t))
                  (sql_exists (\<lambda>tm.
                      sql_and (sql_eq (Some (tm_team_id tm)) (tp_team_id t))
                     (sql_and (sql_eq (tm_user_id tm) auth_uid)
                              (sql_eq (Some (tm_status tm)) (Some ''active''))))
                    (team_members d))))
       (sql_or (sql_and (sql_eq (Some (tp_visibility t)) (Some ''private''))
                        (sql_eq (tp_created_by t) auth_uid))
               (sql_eq (Some (tp_visibility t)) (Some ''unlisted''))))))"

subsection \<open>Sequences of team requests\<close>

text \<open>The rows of a team that have the role owner and the status active.\<close>

definition active_owners :: "db \<Rightarrow> uuid \<Rightarrow> team_member list" where
  "active_owners d tid =
     filter (\<lambda>m. tm_team_id m = tid \<and> tm_role m = ''owner'' \<and> tm_status m = ''active'')
       (team_members d)"

text \<open>
  A request to the team service as it arrives: the caller, the random token of the
  request and the operation. \<open>run\<close> serves a sequence of requests, one after the other.
\<close>

type_synonym team_call = "credential \<times> string \<times> team_request"

fun run :: "db \<Rightarrow> team_call list \<Rightarrow> db option" where
  "run d [] = Some d"
| "run d ((auth, rnd, req) # calls) =
     (case team_management d auth rnd req of
        None \<Rightarrow> None
      | Some (response, d1) \<Rightarrow> run d1 calls)"

text \<open>
  The requests that leave the owners of every team as they are: an invitation to a role
  other than owner, and a member update whose target is not the row of an owner and that
  does not assign the role owner. Team creations and acceptances are not restricted.
\<close>

fun keeps_owners :: "db \<Rightarrow> team_request \<Rightarrow> bool" where
  "keeps_owners d (PutMember teamId memberId upd) =
     (mu_role upd \<noteq> Some ''owner''
      \<and> \<not> list_ex (\<lambda>m. tm_id m = memberId \<and> tm_role m = ''owner'') (team_members d))"
| "keeps_owners d (PostInvite teamId inviteData) = (ti_role inviteData \<noteq> ''owner'')"
| "keeps_owners d req = True"

inductive reachable :: "db \<Rightarrow> bool" where
  init: "teams d = [] \<Longrightarrow> team_members d = [] \<Longrightarrow> reachable d"
| step: "reachable d \<Longrightarrow> keeps_owners d req \<Longrightarrow>
         team_management d auth rnd req = Some (response, d1) \<Longrightarrow> reachable d1"

subsection \<open>Invariant of the team tables\<close>

text \<open>
  What a sequence of team requests keeps: identifiers of teams are below the counter,
  every membership belongs to a team of the table, an owner's row is active, and every team
  has one row that is owner and active.
\<close>

definition team_invariant :: "db \<Rightarrow> bool" where
  "team_invariant d \<longleftrightarrow>
     (\<forall>t \<in> set (teams d). t_id t < uuid_counter d)
   \<and> (\<forall>m \<in> set (team_members d). team_exists d (tm_team_id m))
   \<and> (\<forall>m \<in> set (team_members d). tm_role m = ''owner'' \<longrightarrow> tm_status m = ''active'')
   \<and> (\<forall>t \<in> set (teams d). length (active_owners d (t_id t)) = 1)"

subsection \<open>What a response returns\<close>

definition returned_projects :: "projects_response \<Rightarrow> project list" where
  "returned_projects r = (case r of ProjectList ps \<Rightarrow> ps | ProjectRow p \<Rightarrow> [p] | ProjectDeleted \<Rightarrow> [])"

definition owner_count_after :: "db \<Rightarrow> team_call list \<Rightarrow> uuid \<Rightarrow> nat option" where
  "owner_count_after d calls tid = map_option (\<lambda>d1. length (active_owners d1 tid)) (run d calls)"

text \<open>
  The slug that the loop of the team creation tests in a round.
\<close>

definition candidate :: "string \<Rightarrow> nat \<Rightarrow> string" where
  "candidate slug counter = (if counter > 0 then slug @ ''-'' @ string_of_nat counter else slug)"

subsection \<open>Example data\<close>

text \<open>
  Two users: Alice on a paid tier, Bob on the free tier with three generations this
  month. Alice creates the team Acme and invites Bob as a member.
\<close>

definition alice :: user where
  "alice = \<lparr>u_id = 1, u_email = ''alice@x.com'', u_subscription_tier = ''pro_monthly'',
            u_monthly_generations = 0, u_projects_generated = 0, u_role = ''user'',
            u_is_active = True, u_current_team_id = None, u_is_team_owner = False\<rparr>"

definition bob :: user where
  "bob = \<lparr>u_id = 2, u_email = ''bob@x.com'', u_subscription_tier = ''free'',
          u_monthly_generations = 3, u_projects_generated = 3, u_role = ''user'',
          u_is_active = True, u_current_team_id = None, u_is_team_owner = False\<rparr>"

definition db0 :: db where
  "db0 = \<lparr>users = [alice, bob], teams = [], team_members = [], projects = [],
          project_collaborators = [], templates = [], activity_logs = [],
          usage_analytics = [], uuid_counter = 100, openai_requests = []\<rparr>"

definition acme_request :: TeamCreateRequest where
  "acme_request = \<lparr>tc_name = ''Acme'', tc_slug = None, tc_description = None,
                    tc_subscription_tier = None\<rparr>"

definition acme :: team where
  "acme = \<lparr>t_id = 100, t_name = ''Acme'', t_slug = ''acme'', t_description = None,
           t_subscription_tier = ''team_monthly'', t_member_limit = 5, t_created_by = 1\<rparr>"

definition bob_invitation :: team_member where
  "bob_invitation = \<lparr>tm_id = 102, tm_team_id = 100, tm_user_id = Some 2, tm_role = ''member'',
                     tm_status = ''pending'', tm_invitation_token = Some ''tok-1'',
                     tm_invited_by = Some 1\<rparr>"

definition created_db :: db where
  "created_db = db0\<lparr>users := [alice\<lparr>u_current_team_id := Some 100, u_is_team_owner := True\<rparr>, bob],
                    teams := [acme], team_members := [owner_member 100 1 101],
                    activity_logs := [\<lparr>al_user_id = Some 1, al_team_id = Some 100,
                                       al_action = ''team_created'', al_resource_type = ''team'',
                                       al_resource_id = Some 100\<rparr>],
                    uuid_counter := 102\<rparr>"

definition bob_invite :: TeamInviteRequest where
  "bob_invite = \<lparr>ti_email = ''bob@x.com'', ti_role = ''member'', ti_message = None\<rparr>"

definition invited_db :: db where
  "invited_db = created_db\<lparr>team_members := [owner_member 100 1 101, bob_invitation],
                           activity_logs := activity_logs created_db @
                             [\<lparr>al_user_id = Some 1, al_team_id = Some 100,
                               al_action = ''member_invited'', al_resource_type = ''team_member'',
                               al_resource_id = None\<rparr>],
                           uuid_counter := 103\<rparr>"

definition small_team_db :: db where
  "small_team_db = invited_db\<lparr>teams := [acme\<lparr>t_member_limit := 2\<rparr>]\<rparr>"

definition some_body :: GenerateScaffoldRequest where
  "some_body = \<lparr>rq_appIdea = ''A todo list app'', rq_frontendStack = ''nextjs'',
                 rq_backendStack = Some ''supabase'', rq_authType = None, rq_templateId = None\<rparr>"

text \<open>
  Two projects: one of Alice, private, with Bob as a viewer; one of Bob, public, with
  Alice as an editor. Two templates of Alice, a private one and a public one that has not
  been approved.
\<close>

definition p10 :: project where
  "p10 = \<lparr>p_id = 10, p_user_id = 1, p_team_id = None, p_template_id = None,
          p_name = ''todo-list'', p_description = ''A todo list app'',
          p_frontend_stack = ''nextjs'', p_backend_stack = None, p_auth_method = None,
          p_status = ''generated'', p_visibility = Some ''private'', p_is_public = Some False,
          p_created_at = 5, p_deleted_at = None\<rparr>"

definition p11 :: project where
  "p11 = \<lparr>p_id = 11, p_user_id = 2, p_team_id = None, p_template_id = None,
          p_name = ''shop'', p_description = ''A shop'',
          p_frontend_stack = ''nextjs'', p_backend_stack = None, p_auth_method = None,
          p_status = ''generated'', p_visibility = Some ''public'', p_is_public = Some True,
          p_created_at = 6, p_deleted_at = None\<rparr>"

definition projects_db :: db where
  "projects_db = db0\<lparr>projects := [p10, p11],
       project_collaborators :=
         [\<lparr>pc_id = 30, pc_project_id = 10, pc_user_id = 2, pc_role = ''viewer'', pc_status = ''active''\<rparr>,
          \<lparr>pc_id = 31, pc_project_id = 11, pc_user_id = 1, pc_role = ''editor'', pc_status = ''active''\<rparr>]\<rparr>"

definition tp20 :: template where
  "tp20 = \<lparr>tp_id = 20, tp_name = ''Private starter'', tp_category = ''saas'',
           tp_visibility = ''private'', tp_is_approved = True, tp_created_by = Some 1,
           tp_team_id = None, tp_view_count = 0, tp_usage_count = 0, tp_deleted_at = None\<rparr>"

definition tp21 :: template where
  "tp21 = \<lparr>tp_id = 21, tp_name = ''Unreviewed starter'', tp_category = ''blog'',
           tp_visibility = ''public'', tp_is_approved = False, tp_created_by = Some 1,
           tp_team_id = None, tp_view_count = 0, tp_usage_count = 0, tp_deleted_at = None\<rparr>"

definition templates_db :: db where
  "templates_db = db0\<lparr>templates := [tp20, tp21]\<rparr>"

section \<open>Properties\<close>

subsection \<open>Queries and conditions\<close>

lemma single_Some_iff: "single xs = Some x \<longleftrightarrow> xs = [x]"
  by (cases xs rule: single.cases) auto

lemma single_filter_SomeD:
  assumes "single (filter P xs) = Some x"
  shows "x \<in> set xs" "P x" "\<And>y. y \<in> set xs \<Longrightarrow> P y \<Longrightarrow> y = x"
proof -
  from assms have eq: "filter P xs = [x]" by (simp add: single_Some_iff)
  then have "set (filter P xs) = {x}" by simp
  then show "x \<in> set xs" "P x" "\<And>y. y \<in> set xs \<Longrightarrow> P y \<Longrightarrow> y = x" by auto
qed

lemma sql_true_and: "sql_true (sql_and a b) \<longleftrightarrow> sql_true a \<and> sql_true b"
  by (cases a; cases b) (auto simp: sql_true_def sql_and_def)

lemma sql_true_or: "sql_true (sql_or a b) \<longleftrightarrow> sql_true a \<or> sql_true b"
  by (cases a; cases b) (auto simp: sql_true_def sql_or_def)

lemma sql_true_eq_Some_Some: "sql_true (sql_eq (Some x) (Some y)) \<longleftrightarrow> x = y"
  by (simp add: sql_true_def sql_eq_def)

lemma sql_true_eq_None: "sql_true (sql_eq a None) \<longleftrightarrow> False" "sql_true (sql_eq None b) \<longleftrightarrow> False"
  by (cases a) (simp_all add: sql_true_def sql_eq_def)

lemma sql_true_eq_Some_right: "sql_true (sql_eq a (Some y)) \<longleftrightarrow> a = Some y"
  by (cases a) (auto simp: sql_true_def sql_eq_def)

lemma sql_true_is_null: "sql_true (sql_is_null a) \<longleftrightarrow> a = None"
  by (simp add: sql_true_def sql_is_null_def)

lemma sql_true_is_not_null: "sql_true (sql_is_not_null a) \<longleftrightarrow> a \<noteq> None"
  by (simp add: sql_true_def sql_is_not_null_def)

lemma sql_true_exists: "sql_true (sql_exists c rows) \<longleftrightarrow> (\<exists>r \<in> set rows. sql_true (c r))"
  by (auto simp: sql_true_def sql_exists_def filter_empty_conv)

lemma sql_true_in: "sql_true (sql_in (Some x) xs) \<longleftrightarrow> x \<in> set xs"
  by (simp add: sql_true_def sql_in_def)

lemmas sql_true_simps = sql_true_and sql_true_or sql_true_eq_Some_Some sql_true_eq_None
  sql_true_eq_Some_right sql_true_is_null sql_true_is_not_null sql_true_exists

lemma update_users_frame [simp]:
  "team_members (update_users d uid f) = team_members d"
  "teams (update_users d uid f) = teams d"
  "uuid_counter (update_users d uid f) = uuid_counter d"
  by (simp_all add: update_users_def Let_def)

lemma insert_activity_log_frame [simp]:
  "team_members (insert_activity_log d l) = team_members d"
  "teams (insert_activity_log d l) = teams d"
  "uuid_counter (insert_activity_log d l) = uuid_counter d"
  by (simp_all add: insert_activity_log_def)

lemma length_filter_conj_le: "length (filter (\<lambda>x. P x \<and> Q x) xs) \<le> length (filter P xs)"
  by (induction xs) auto

lemma filter_map_same_length:
  assumes "\<And>x. x \<in> set xs \<Longrightarrow> P (f x) = P x"
  shows "length (filter P (map f xs)) = length (filter P xs)"
  using assms by (induction xs) auto

lemma team_exists_iff: "team_exists d x \<longleftrightarrow> (\<exists>t \<in> set (teams d). t_id t = x)"
  by (simp add: team_exists_def list_ex_iff)

lemma user_exists_iff: "user_exists d x \<longleftrightarrow> (\<exists>u \<in> set (users d). u_id u = x)"
  by (simp add: user_exists_def list_ex_iff)

subsection \<open>Who may see a project\<close>

text \<open>
  What the select policy of projects decides: it lets an actor see a project exactly when
  the project is not soft-deleted and the actor is its owner, or an active member of the
  project's team (when the project has one), or the project has visibility public and the
  flag \<^verbatim>\<open>is_public\<close>, or the actor has an active collaborator row whose
  \<^verbatim>\<open>project_id\<close> equals the identifier of that row itself. The project does not occur
  in the last condition: a collaboration on the project does not count.
\<close>

lemma projects_select_access_true_iff:
  "sql_true (projects_select_access d auth_uid p) \<longleftrightarrow>
     p_deleted_at p = None \<and>
     (auth_uid = Some (p_user_id p)
      \<or> (\<exists>t u. p_team_id p = Some t \<and> auth_uid = Some u \<and>
            (\<exists>tm \<in> set (team_members d).
               tm_team_id tm = t \<and> tm_user_id tm = Some u \<and> tm_status tm = ''active''))
      \<or> (\<exists>u. auth_uid = Some u \<and>
            (\<exists>pc \<in> set (project_collaborators d).
               pc_project_id pc = pc_id pc \<and> pc_user_id pc = u \<and> pc_status pc = ''active''))
      \<or> (p_visibility p = Some ''public'' \<and> p_is_public p = Some True))"
  unfolding projects_select_access_def
  by (cases auth_uid; cases "p_team_id p") (auto simp: sql_true_simps)

text \<open>
  C1. Bob is an active collaborator (a viewer) on Alice's private project, which is not
  deleted, and the policy does not let him see it.
\<close>

theorem collaborator_not_admitted:
  "\<lparr>pc_id = 30, pc_project_id = 10, pc_user_id = 2, pc_role = ''viewer'', pc_status = ''active''\<rparr>
      \<in> set (project_collaborators projects_db)
   \<and> p10 \<in> set (projects projects_db) \<and> p_id p10 = 10 \<and> p_deleted_at p10 = None
   \<and> projects_select_access projects_db (Some 2) p10 = Some False"
  by code_simp

subsection \<open>Listing projects\<close>

text \<open>
  C10. The handler of project reads returns rows of the caller only: every project in
  the response, the list or the single row asked for by identifier, is a row of the table
  whose \<^verbatim>\<open>user_id\<close> is the caller.
\<close>

theorem handleGetProjects_only_own:
  assumes "handleGetProjects d userId projectId = Inr r"
  shows "\<forall>q \<in> set (returned_projects r). p_user_id q = userId \<and> q \<in> set (projects d)"
proof (cases projectId)
  case None
  with assms have "r = ProjectList (rev (sort_key p_created_at (filter (\<lambda>p. p_user_id p = userId) (projects d))))"
    by (auto simp: handleGetProjects_def Let_def)
  then show ?thesis by (simp add: returned_projects_def)
next
  case (Some pid)
  with assms obtain p where
    p: "single (filter (\<lambda>p. p_id p = pid) (rev (sort_key p_created_at (filter (\<lambda>p. p_user_id p = userId) (projects d))))) = Some p"
    and r: "r = ProjectRow p"
    by (auto simp: handleGetProjects_def Let_def split: option.splits)
  from single_filter_SomeD(1) [OF p] have "p_user_id p = userId \<and> p \<in> set (projects d)" by simp
  with r show ?thesis by (simp add: returned_projects_def)
qed

text \<open>
  Alice may see Bob's public project under the select policy, but her list has her own
  project only.
\<close>

theorem handleGetProjects_only_own_witness:
  "handleGetProjects projects_db 1 None = Inr (ProjectList [p10])
   \<and> sql_true (projects_select_access projects_db (Some 1) p11)
   \<and> p_user_id p10 = 1 \<and> p10 \<in> set (projects projects_db)"
proof -
  have run: "handleGetProjects projects_db 1 None = Inr (ProjectList [p10])"
    by (simp add: handleGetProjects_def projects_db_def p10_def p11_def db0_def)
  have seen: "sql_true (projects_select_access projects_db (Some 1) p11)"
    by code_simp
  have "p10 \<in> set (returned_projects (ProjectList [p10]))"
    by (simp add: returned_projects_def)
  with handleGetProjects_only_own [OF run]
  have "p_user_id p10 = 1 \<and> p10 \<in> set (projects projects_db)" by (rule bspec)
  with run seen show ?thesis by simp
qed

text \<open>
  Asked by identifier for a project that is not the caller's, the handler finds no row
  among the caller's and answers with status 500.
\<close>

lemma handleGetProjects_not_owned:
  assumes "\<not> list_ex (\<lambda>p. p_id p = pid \<and> p_user_id p = userId) (projects d)"
  shows "handleGetProjects d userId (Some pid) = Inl (InternalError ''Failed to fetch projects'')"
proof -
  have "filter (\<lambda>p. p_id p = pid)
          (rev (sort_key p_created_at (filter (\<lambda>p. p_user_id p = userId) (projects d)))) = []"
    using assms unfolding filter_empty_conv by (auto simp: list_ex_iff)
  then show ?thesis by (simp add: handleGetProjects_def)
qed

lemma handleGetProjects_other_owner:
  "handleGetProjects projects_db 1 (Some 11) = Inl (InternalError ''Failed to fetch projects'')"
  by code_simp

subsection \<open>Deleting a project\<close>

text \<open>
  C7. Deletion by the owner removes the row of the project from the table (and the
  collaborators that reference it); no row with \<^verbatim>\<open>deleted_at\<close> set remains.
  Afterwards a read by identifier, here by the former collaborator, answers with status
  500, not 404.
\<close>

theorem handleDeleteProject_removes_row:
  "handleDeleteProject projects_db 1 10
     = (Inr ProjectDeleted,
        projects_db\<lparr>projects := [p11],
                    project_collaborators :=
                      [\<lparr>pc_id = 31, pc_project_id = 11, pc_user_id = 1, pc_role = ''editor'',
                        pc_status = ''active''\<rparr>]\<rparr>)
   \<and> handleGetProjects (snd (handleDeleteProject projects_db 1 10)) 2 (Some 10)
       = Inl (InternalError ''Failed to fetch projects'')"
  by code_simp

text \<open>
  In general: after a deletion that succeeds no row of the table has the identifier, and
  a read by that identifier is answered with status 500 whoever asks.
\<close>

lemma handleDeleteProject_row_gone:
  assumes "handleDeleteProject d userId projectId = (Inr r, d1)"
  shows "\<not> list_ex (\<lambda>p. p_id p = projectId) (projects d1)"
    and "handleGetProjects d1 anyone (Some projectId) = Inl (InternalError ''Failed to fetch projects'')"
proof -
  from assms have d1: "projects d1 = filter (\<lambda>p. p_id p \<noteq> projectId) (projects d)"
    unfolding handleDeleteProject_def by (auto split: option.splits if_splits)
  then show gone: "\<not> list_ex (\<lambda>p. p_id p = projectId) (projects d1)"
    by (simp add: list_ex_iff)
  then have "\<not> list_ex (\<lambda>p. p_id p = projectId \<and> p_user_id p = anyone) (projects d1)"
    by (simp add: list_ex_iff)
  then show "handleGetProjects d1 anyone (Some projectId) = Inl (InternalError ''Failed to fetch projects'')"
    by (rule handleGetProjects_not_owned)
qed

subsection \<open>Reading a template\<close>

text \<open>
  The select policy of templates passes a template only if it is not deleted and is
  public or unlisted, or premium for an active user on a paid tier, or a team template
  for an active member of its team, or private for its creator. Whether the template has
  been approved makes no difference to it.
\<close>

lemma templates_select_access_only_if:
  assumes "sql_true (templates_select_access d auth_uid t)"
  shows "tp_deleted_at t = None
       \<and> (tp_visibility t = ''public'' \<or> tp_visibility t = ''unlisted''
          \<or> (tp_visibility t = ''premium''
               \<and> (\<exists>u \<in> set (users d). auth_uid = Some (u_id u)
                      \<and> u_subscription_tier u \<in> set paid_tiers \<and> u_is_active u))
          \<or> (tp_visibility t = ''team''
               \<and> (\<exists>m \<in> set (team_members d). tp_team_id t = Some (tm_team_id m)
                      \<and> auth_uid \<noteq> None \<and> tm_user_id m = auth_uid \<and> tm_status m = ''active''))
          \<or> (tp_visibility t = ''private'' \<and> auth_uid \<noteq> None \<and> tp_created_by t = auth_uid))"
  using assms unfolding templates_select_access_def
  by (cases auth_uid; cases "tp_team_id t"; cases "tp_created_by t")
     (auto simp: sql_true_simps sql_true_in)

lemma templates_select_access_approval:
  "templates_select_access d auth_uid (t\<lparr>tp_is_approved := b\<rparr>) = templates_select_access d auth_uid t"
  by (simp add: templates_select_access_def)

text \<open>
  C2. Alice's public template has not been approved, Bob is not its creator, and the
  select policy passes it for Bob.
\<close>

theorem unapproved_template_visible:
  "tp21 \<in> set (templates templates_db)
   \<and> tp_visibility tp21 = ''public'' \<and> \<not> tp_is_approved tp21 \<and> tp_created_by tp21 = Some 1
   \<and> templates_select_access templates_db (Some 2) tp21 = Some True"
  by code_simp

text \<open>
  The handler of the template service answers every read by identifier with status 500,
  whatever the identifier, the caller and the table: the query that fetches the template
  is rejected.
\<close>

lemma handleGetTemplate_fails:
  "handleGetTemplate d templateId user = (Inl (InternalError ''Failed to fetch template''), d)"
  by (simp add: handleGetTemplate_def eq_deleted_at_null_def)

text \<open>
  C8. Bob asks for Alice's private template, which exists and is not deleted: the answer
  is the error of status 500 with the message \<^verbatim>\<open>Failed to fetch template\<close>, not a
  not-found error, and nothing is written.
\<close>

theorem private_template_read_fails:
  "tp20 \<in> set (templates templates_db)
   \<and> tp_visibility tp20 = ''private'' \<and> tp_created_by tp20 = Some 1 \<and> tp_deleted_at tp20 = None
   \<and> handleGetTemplate templates_db 20 (Some 2)
       = (Inl (InternalError ''Failed to fetch template''), templates_db)
   \<and> http_status (InternalError ''Failed to fetch template'') = 500"
  by code_simp

text \<open>
  The access check behind the query, on a row as the handler selects it: the key
  \<^verbatim>\<open>created_by\<close> holds the embedded user, so the check never recognises the creator,
  and a private template passes for nobody. Whether the template has been approved makes
  no difference to the check either.
\<close>

lemma select_template_not_creator:
  "\<not> strict_equals (st_created_by (select_template d t)) uid"
  by (simp add: select_template_def split: option.split)

lemma checkTemplateAccess_private:
  assumes "tp_visibility t = ''private''"
  shows "\<not> checkTemplateAccess d (select_template d t) user"
proof -
  have "tp_visibility (st_columns (select_template d t)) = ''private''"
    using assms by (simp add: select_template_def)
  then show ?thesis
    by (simp add: checkTemplateAccess_def Let_def select_template_not_creator split: option.split)
qed

lemma checkTemplateAccess_approval:
  "checkTemplateAccess d (template\<lparr>st_columns := (st_columns template)\<lparr>tp_is_approved := b\<rparr>\<rparr>) user
     = checkTemplateAccess d template user"
  by (simp add: checkTemplateAccess_def Let_def cong: option.case_cong)

subsection \<open>The generation limit\<close>

text \<open>
  C3. When the table of limits has a limit for the tier of the caller, the limit is not
  the sentinel \<open>-1\<close> and the caller's monthly count has reached it, the handler answers
  with the quota error that carries the limit and the count, and the database is the one
  it was given: no request to the generator is recorded, no project is inserted and no
  counter moves.
\<close>

theorem quota_reached_rejects:
  assumes "single (filter (\<lambda>u. u_id u = uid) (users d)) = Some userData"
    and "map_of limits (u_subscription_tier userData) = Some userLimit"
    and "userLimit \<noteq> -1"
    and "u_monthly_generations userData \<ge> userLimit"
  shows "generate_scaffold d (Authorization (Some uid)) apiKey reply now body
           = (Inl (QuotaExceededError userLimit (u_monthly_generations userData)), d)"
  using assms by (simp add: generate_scaffold_def limit_reached_def)

text \<open>
  Bob, on the free tier with three generations and a limit of three.
\<close>

theorem quota_reached_rejects_witness:
  "generate_scaffold db0 (Authorization (Some 2)) (Some ''key'') (Content None) 7 some_body
     = (Inl (QuotaExceededError 3 3), db0)"
  using quota_reached_rejects [of 2 db0 bob 3 "Some ''key''" "Content None" 7 some_body]
  by (simp add: db0_def alice_def bob_def limits_def)

text \<open>
  The table lists the tiers free, pro, team and enterprise. A tier that it does not
  list, such as Alice's, has no limit whatever the count.
\<close>

lemma limit_reached_unlisted_tier:
  "limit_reached (alice\<lparr>u_monthly_generations := 1000\<rparr>) = None"
  by code_simp

subsection \<open>Accepting an invitation\<close>

lemma accept_result:
  assumes "handleAcceptInvitation d userId tok = (Inr r, d1)"
  obtains invitation team d2 where
    "single (filter (\<lambda>m. tm_invitation_token m = Some tok \<and> tm_status m = ''pending'') (team_members d)) = Some invitation"
    "tm_user_id invitation = None \<or> tm_user_id invitation = Some userId"
    "single (filter (\<lambda>t. t_id t = tm_team_id invitation) (teams d)) = Some team"
    "int (length (filter (\<lambda>m. tm_team_id m = t_id team) (team_members d))) < t_member_limit team"
    "accept_update d invitation userId = Some d2"
    "team_members d1 = team_members d2" "teams d1 = teams d2"
    "uuid_counter d1 = uuid_counter d2"
    "r = InvitationAccepted team"
  using assms unfolding handleAcceptInvitation_def
  by (auto simp: Let_def split: option.splits if_splits)

lemma accept_failure_unchanged:
  assumes "handleAcceptInvitation d userId tok = (Inl e, d1)"
  shows "d1 = d"
  using assms unfolding handleAcceptInvitation_def
  by (auto simp: Let_def split: option.splits if_splits)

lemma accept_update_members:
  assumes "accept_update d invitation userId = Some d2"
  shows "team_members d2 =
           map (\<lambda>m. if tm_id m = tm_id invitation
                     then m\<lparr>tm_user_id := Some userId, tm_status := ''active'', tm_invitation_token := None\<rparr>
                     else m) (team_members d)"
    and "teams d2 = teams d" and "uuid_counter d2 = uuid_counter d"
  using assms unfolding accept_update_def by (auto split: if_splits)

lemma accept_no_pending_token:
  assumes "handleAcceptInvitation d userId tok = (Inr r, d1)"
  shows "filter (\<lambda>m. tm_invitation_token m = Some tok \<and> tm_status m = ''pending'') (team_members d1) = []"
proof -
  from assms obtain invitation and team :: team and d2 where
    inv: "single (filter (\<lambda>m. tm_invitation_token m = Some tok \<and> tm_status m = ''pending'') (team_members d)) = Some invitation"
    and upd: "accept_update d invitation userId = Some d2"
    and tms: "team_members d1 = team_members d2"
    by (rule accept_result)
  have uniq: "\<And>y. y \<in> set (team_members d) \<Longrightarrow> tm_invitation_token y = Some tok \<Longrightarrow> tm_status y = ''pending'' \<Longrightarrow> y = invitation"
    using single_filter_SomeD(3) [OF inv] by blast
  show ?thesis
    unfolding tms accept_update_members(1) [OF upd] filter_empty_conv
  proof
    fix x
    assume "x \<in> set (map (\<lambda>m. if tm_id m = tm_id invitation
                     then m\<lparr>tm_user_id := Some userId, tm_status := ''active'', tm_invitation_token := None\<rparr>
                     else m) (team_members d))"
    then obtain m where m: "m \<in> set (team_members d)"
      and x: "x = (if tm_id m = tm_id invitation
                     then m\<lparr>tm_user_id := Some userId, tm_status := ''active'', tm_invitation_token := None\<rparr>
                     else m)" by auto
    show "\<not> (tm_invitation_token x = Some tok \<and> tm_status x = ''pending'')"
    proof (cases "tm_id m = tm_id invitation")
      case True
      with x show ?thesis by simp
    next
      case False
      with x have "x = m" by simp
      with uniq [OF m] False show ?thesis by auto
    qed
  qed
qed

text \<open>
  C5. After an acceptance that succeeds, no pending row carries the token any more, and
  a second acceptance with the same token, by any caller, is answered with the not-found
  error of status 404 and writes nothing.
\<close>

theorem accept_invitation_single_use:
  assumes "handleAcceptInvitation d userId tok = (Inr r, d1)"
  shows "handleAcceptInvitation d1 userId2 tok = (Inl (NotFoundError ''Invalid or expired invitation''), d1)
       \<and> (\<forall>m \<in> set (team_members d1). tm_status m = ''pending'' \<longrightarrow> tm_invitation_token m \<noteq> Some tok)"
proof
  have none: "filter (\<lambda>m. tm_invitation_token m = Some tok \<and> tm_status m = ''pending'') (team_members d1) = []"
    using assms by (rule accept_no_pending_token)
  show "handleAcceptInvitation d1 userId2 tok = (Inl (NotFoundError ''Invalid or expired invitation''), d1)"
    unfolding handleAcceptInvitation_def none by simp
  from none show "\<forall>m \<in> set (team_members d1). tm_status m = ''pending'' \<longrightarrow> tm_invitation_token m \<noteq> Some tok"
    unfolding filter_empty_conv by blast
qed

text \<open>
  Bob accepts the invitation of Acme, then presents the token again.
\<close>

lemma accept_run:
  "fst (handleAcceptInvitation invited_db 2 ''tok-1'') = Inr (InvitationAccepted acme)"
  by code_simp

theorem accept_invitation_single_use_witness:
  "fst (handleAcceptInvitation invited_db 2 ''tok-1'') = Inr (InvitationAccepted acme)
   \<and> fst (handleAcceptInvitation (snd (handleAcceptInvitation invited_db 2 ''tok-1'')) 2 ''tok-1'')
       = Inl (NotFoundError ''Invalid or expired invitation'')"
proof -
  from accept_run have run: "handleAcceptInvitation invited_db 2 ''tok-1''
      = (Inr (InvitationAccepted acme), snd (handleAcceptInvitation invited_db 2 ''tok-1''))"
    by (simp add: prod_eq_iff)
  from accept_invitation_single_use [OF run, of 2] accept_run show ?thesis by simp
qed

text \<open>
  C6. An acceptance succeeds only if the token is the token of exactly one pending
  row, the caller is the user of that row when the row has one, and the number of active
  rows of the team is below the member limit; then the row is active. An acceptance that
  fails leaves the database as it was, so the membership stays pending.
\<close>

theorem accept_invitation_guards:
  "(handleAcceptInvitation d userId tok = (Inr r, d1) \<longrightarrow>
      (\<exists>invitation team.
          invitation \<in> set (team_members d)
        \<and> tm_invitation_token invitation = Some tok \<and> tm_status invitation = ''pending''
        \<and> (\<forall>m \<in> set (team_members d).
              tm_invitation_token m = Some tok \<and> tm_status m = ''pending'' \<longrightarrow> m = invitation)
        \<and> (\<forall>target. tm_user_id invitation = Some target \<longrightarrow> userId = target)
        \<and> team \<in> set (teams d) \<and> t_id team = tm_team_id invitation
        \<and> int (length (filter (\<lambda>m. tm_team_id m = t_id team \<and> tm_status m = ''active'') (team_members d)))
            < t_member_limit team
        \<and> (\<forall>m \<in> set (team_members d1). tm_id m = tm_id invitation \<longrightarrow> tm_status m = ''active'')))
   \<and> (handleAcceptInvitation d userId tok = (Inl e, d1) \<longrightarrow> d1 = d)"
proof (intro conjI impI)
  assume ok: "handleAcceptInvitation d userId tok = (Inr r, d1)"
  then obtain invitation team d2 where
    inv: "single (filter (\<lambda>m. tm_invitation_token m = Some tok \<and> tm_status m = ''pending'') (team_members d)) = Some invitation"
    and target: "tm_user_id invitation = None \<or> tm_user_id invitation = Some userId"
    and team: "single (filter (\<lambda>t. t_id t = tm_team_id invitation) (teams d)) = Some team"
    and count: "int (length (filter (\<lambda>m. tm_team_id m = t_id team) (team_members d))) < t_member_limit team"
    and upd: "accept_update d invitation userId = Some d2"
    and tms: "team_members d1 = team_members d2"
    by (rule accept_result)
  note i = single_filter_SomeD [OF inv]
  note t = single_filter_SomeD [OF team]
  have active: "int (length (filter (\<lambda>m. tm_team_id m = t_id team \<and> tm_status m = ''active'') (team_members d)))
                  < t_member_limit team"
    using count length_filter_conj_le [of "\<lambda>m. tm_team_id m = t_id team" "\<lambda>m. tm_status m = ''active''" "team_members d"]
    by linarith
  have after: "\<forall>m \<in> set (team_members d1). tm_id m = tm_id invitation \<longrightarrow> tm_status m = ''active''"
    unfolding tms accept_update_members(1) [OF upd] by auto
  show "\<exists>invitation team.
          invitation \<in> set (team_members d)
        \<and> tm_invitation_token invitation = Some tok \<and> tm_status invitation = ''pending''
        \<and> (\<forall>m \<in> set (team_members d).
              tm_invitation_token m = Some tok \<and> tm_status m = ''pending'' \<longrightarrow> m = invitation)
        \<and> (\<forall>target. tm_user_id invitation = Some target \<longrightarrow> userId = target)
        \<and> team \<in> set (teams d) \<and> t_id team = tm_team_id invitation
        \<and> int (length (filter (\<lambda>m. tm_team_id m = t_id team \<and> tm_status m = ''active'') (team_members d)))
            < t_member_limit team
        \<and> (\<forall>m \<in> set (team_members d1). tm_id m = tm_id invitation \<longrightarrow> tm_status m = ''active'')"
  proof (intro exI [of _ invitation] exI [of _ team] conjI)
    show "invitation \<in> set (team_members d)" by (rule i(1))
    show "tm_invitation_token invitation = Some tok" using i(2) by simp
    show "tm_status invitation = ''pending''" using i(2) by simp
    show "\<forall>m \<in> set (team_members d).
              tm_invitation_token m = Some tok \<and> tm_status m = ''pending'' \<longrightarrow> m = invitation"
      using i(3) by blast
    show "\<forall>target. tm_user_id invitation = Some target \<longrightarrow> userId = target"
      using target by auto
    show "team \<in> set (teams d)" by (rule t(1))
    show "t_id team = tm_team_id invitation" by (rule t(2))
    show "int (length (filter (\<lambda>m. tm_team_id m = t_id team \<and> tm_status m = ''active'') (team_members d)))
            < t_member_limit team" by (rule active)
    show "\<forall>m \<in> set (team_members d1). tm_id m = tm_id invitation \<longrightarrow> tm_status m = ''active''"
      by (rule after)
  qed
next
  assume "handleAcceptInvitation d userId tok = (Inl e, d1)"
  then show "d1 = d" by (rule accept_failure_unchanged)
qed

text \<open>
  Bob's acceptance succeeds under these guards; Alice's attempt with Bob's token is
  refused and changes nothing.
\<close>

lemma accept_wrong_user:
  "handleAcceptInvitation invited_db 1 ''tok-1''
     = (Inl (ForbiddenError ''This invitation is not for your account''), invited_db)"
  by code_simp

theorem accept_invitation_guards_witness:
  "(\<exists>invitation team.
          invitation \<in> set (team_members invited_db)
        \<and> tm_invitation_token invitation = Some ''tok-1'' \<and> tm_status invitation = ''pending''
        \<and> (\<forall>m \<in> set (team_members invited_db).
              tm_invitation_token m = Some ''tok-1'' \<and> tm_status m = ''pending'' \<longrightarrow> m = invitation)
        \<and> (\<forall>target. tm_user_id invitation = Some target \<longrightarrow> 2 = target)
        \<and> team \<in> set (teams invited_db) \<and> t_id team = tm_team_id invitation
        \<and> int (length (filter (\<lambda>m. tm_team_id m = t_id team \<and> tm_status m = ''active'')
                          (team_members invited_db))) < t_member_limit team
        \<and> (\<forall>m \<in> set (team_members (snd (handleAcceptInvitation invited_db 2 ''tok-1''))).
              tm_id m = tm_id invitation \<longrightarrow> tm_status m = ''active''))
   \<and> snd (handleAcceptInvitation invited_db 1 ''tok-1'') = invited_db"
proof -
  from accept_run have run: "handleAcceptInvitation invited_db 2 ''tok-1''
      = (Inr (InvitationAccepted acme), snd (handleAcceptInvitation invited_db 2 ''tok-1''))"
    by (simp add: prod_eq_iff)
  have refused: "handleAcceptInvitation invited_db 1 ''tok-1''
      = (Inl (ForbiddenError ''This invitation is not for your account''),
         snd (handleAcceptInvitation invited_db 1 ''tok-1''))"
    using accept_wrong_user by simp
  from accept_invitation_guards [where d = invited_db and userId = 2 and tok = "''tok-1''"
      and r = "InvitationAccepted acme"
      and ?d1.0 = "snd (handleAcceptInvitation invited_db 2 ''tok-1'')"] run
  have first: "\<exists>invitation team.
          invitation \<in> set (team_members invited_db)
        \<and> tm_invitation_token invitation = Some ''tok-1'' \<and> tm_status invitation = ''pending''
        \<and> (\<forall>m \<in> set (team_members invited_db).
              tm_invitation_token m = Some ''tok-1'' \<and> tm_status m = ''pending'' \<longrightarrow> m = invitation)
        \<and> (\<forall>target. tm_user_id invitation = Some target \<longrightarrow> 2 = target)
        \<and> team \<in> set (teams invited_db) \<and> t_id team = tm_team_id invitation
        \<and> int (length (filter (\<lambda>m. tm_team_id m = t_id team \<and> tm_status m = ''active'')
                          (team_members invited_db))) < t_member_limit team
        \<and> (\<forall>m \<in> set (team_members (snd (handleAcceptInvitation invited_db 2 ''tok-1''))).
              tm_id m = tm_id invitation \<longrightarrow> tm_status m = ''active'')"
    by (rule conjunct1 [THEN mp])
  from accept_invitation_guards [where d = invited_db and userId = 1 and tok = "''tok-1''"
      and e = "ForbiddenError ''This invitation is not for your account''"
      and ?d1.0 = "snd (handleAcceptInvitation invited_db 1 ''tok-1'')"] refused
  have second: "snd (handleAcceptInvitation invited_db 1 ''tok-1'') = invited_db"
    by (rule conjunct2 [THEN mp])
  from first second show ?thesis by (rule conjI)
qed

text \<open>
  The handler compares the limit with the count of all rows of the team, the pending
  invitation included, so it also refuses when the active rows alone are below the limit:
  with a limit of two, one active owner and Bob's pending row, Bob is refused.
\<close>

lemma accept_counts_every_row:
  "handleAcceptInvitation small_team_db 2 ''tok-1''
     = (Inl (ValidationError ''Team has reached member limit''), small_team_db)
   \<and> length (filter (\<lambda>m. tm_team_id m = 100 \<and> tm_status m = ''active'') (team_members small_team_db)) = 1
   \<and> length (filter (\<lambda>m. tm_team_id m = 100) (team_members small_team_db)) = 2"
  by code_simp

subsection \<open>The team service always answers\<close>

text \<open>
  The decimal numerals of different numbers are different, so the slugs tested in
  different rounds are different, and a table of \<open>n\<close> rows cannot hold the slugs of
  \<open>n + 1\<close> rounds: the loop of the team creation ends within the rounds it is given.
\<close>

lemma digit_inj:
  assumes "a < 10" "b < 10" "''0123456789'' ! a = ''0123456789'' ! b"
  shows "a = b"
proof -
  have d: "distinct ''0123456789''" by simp
  have l: "length ''0123456789'' = 10" by simp
  from assms l nth_eq_iff_index_eq [OF d, of a b] show ?thesis by simp
qed

lemma string_of_nat_nonempty: "string_of_nat n \<noteq> []"
  by (subst string_of_nat.simps) simp

lemma string_of_nat_inj: "string_of_nat m = string_of_nat n \<Longrightarrow> m = n"
proof (induction m arbitrary: n rule: string_of_nat.induct)
  case (1 m)
  show ?case
  proof (cases "m < 10")
    case m: True
    show ?thesis
    proof (cases "n < 10")
      case True
      from "1.prems" m True have "''0123456789'' ! m = ''0123456789'' ! n"
        by (subst (asm) string_of_nat.simps, subst (asm) (2) string_of_nat.simps) simp
      with m True show ?thesis by (rule digit_inj)
    next
      case False
      from "1.prems" m False have "string_of_nat (n div 10) = []"
        by (subst (asm) string_of_nat.simps, subst (asm) (2) string_of_nat.simps) simp
      with string_of_nat_nonempty show ?thesis by blast
    qed
  next
    case m: False
    show ?thesis
    proof (cases "n < 10")
      case True
      from "1.prems" m True have "string_of_nat (m div 10) = []"
        by (subst (asm) string_of_nat.simps, subst (asm) (2) string_of_nat.simps) simp
      with string_of_nat_nonempty show ?thesis by blast
    next
      case False
      from "1.prems" m False
      have eq: "string_of_nat (m div 10) = string_of_nat (n div 10)"
        and dg: "''0123456789'' ! (m mod 10) = ''0123456789'' ! (n mod 10)"
        by (subst (asm) string_of_nat.simps, subst (asm) (2) string_of_nat.simps, simp)+
      from "1.IH" [OF m eq] have "m div 10 = n div 10" .
      moreover from digit_inj [OF _ _ dg] have "m mod 10 = n mod 10" by simp
      ultimately show ?thesis by (metis div_mult_mod_eq)
    qed
  qed
qed

lemma candidate_inj: "inj (candidate slug)"
proof (rule injI)
  fix a b assume "candidate slug a = candidate slug b"
  then show "a = b"
    unfolding candidate_def
    by (cases "a > 0"; cases "b > 0") (auto dest: string_of_nat_inj)
qed

lemma slug_loop_None:
  "slug_loop fuel ts slug c = None \<Longrightarrow> \<forall>k < fuel. candidate slug (c + k) \<in> t_slug ` set ts"
proof (induction fuel arbitrary: c)
  case 0
  then show ?case by simp
next
  case (Suc fuel)
  from Suc.prems obtain existing where
    found: "single (filter (\<lambda>t. t_slug t = candidate slug c) ts) = Some existing"
    and rest: "slug_loop fuel ts slug (c + 1) = None"
    by (auto simp: Let_def candidate_def split: option.splits)
  from found have "filter (\<lambda>t. t_slug t = candidate slug c) ts = [existing]"
    by (cases "filter (\<lambda>t. t_slug t = candidate slug c) ts" rule: single.cases) simp_all
  then have "existing \<in> set (filter (\<lambda>t. t_slug t = candidate slug c) ts)" by simp
  then have "existing \<in> set ts" and "candidate slug c = t_slug existing" by simp_all
  then have here: "candidate slug c \<in> t_slug ` set ts" by (rule_tac image_eqI)
  from Suc.IH [OF rest] have later: "\<forall>k < fuel. candidate slug (c + 1 + k) \<in> t_slug ` set ts" .
  show ?case
  proof (intro allI impI)
    fix k assume "k < Suc fuel"
    show "candidate slug (c + k) \<in> t_slug ` set ts"
    proof (cases k)
      case 0
      with here show ?thesis by simp
    next
      case (Suc j)
      with \<open>k < Suc fuel\<close> later have "candidate slug (c + 1 + j) \<in> t_slug ` set ts" by simp
      with Suc show ?thesis by simp
    qed
  qed
qed

lemma slug_loop_returns: "slug_loop (Suc (length ts)) ts slug 0 \<noteq> None"
proof
  assume "slug_loop (Suc (length ts)) ts slug 0 = None"
  from slug_loop_None [OF this]
  have "candidate slug ` {..< Suc (length ts)} \<subseteq> t_slug ` set ts" by auto
  then have "card (candidate slug ` {..< Suc (length ts)}) \<le> card (t_slug ` set ts)"
    by (intro card_mono) simp_all
  also have "\<dots> \<le> card (set ts)" by (rule card_image_le) simp
  also have "\<dots> \<le> length ts" by (rule card_length)
  finally have "card (candidate slug ` {..< Suc (length ts)}) \<le> length ts" .
  moreover have "inj_on (candidate slug) {..< Suc (length ts)}"
    by (rule inj_on_subset [OF candidate_inj]) simp
  then have "card (candidate slug ` {..< Suc (length ts)}) = Suc (length ts)"
    by (simp add: card_image)
  ultimately show False by simp
qed

lemma handleCreateTeam_returns: "handleCreateTeam d userId teamData userTier \<noteq> None"
  unfolding handleCreateTeam_def Let_def
  by (simp del: slug_loop.simps add: slug_loop_returns split: option.splits prod.splits)

lemma handleCreateTeam_returns_ex: "\<exists>a b. handleCreateTeam d userId teamData userTier = Some (a, b)"
  using handleCreateTeam_returns [of d userId teamData userTier] by auto

lemma team_management_returns: "team_management d auth rnd req \<noteq> None"
  unfolding team_management_def
  by (simp add: handleCreateTeam_returns_ex split: credential.splits option.splits team_request.splits)

subsection \<open>One owner per team\<close>

lemma team_invariantD:
  assumes "team_invariant d"
  shows "\<And>t. t \<in> set (teams d) \<Longrightarrow> t_id t < uuid_counter d"
    and "\<And>m. m \<in> set (team_members d) \<Longrightarrow> team_exists d (tm_team_id m)"
    and "\<And>m. m \<in> set (team_members d) \<Longrightarrow> tm_role m = ''owner'' \<Longrightarrow> tm_status m = ''active''"
    and "\<And>t. t \<in> set (teams d) \<Longrightarrow> length (active_owners d (t_id t)) = 1"
  using assms unfolding team_invariant_def by simp_all

lemma team_invariantI:
  assumes "\<And>t. t \<in> set (teams d) \<Longrightarrow> t_id t < uuid_counter d"
    and "\<And>m. m \<in> set (team_members d) \<Longrightarrow> team_exists d (tm_team_id m)"
    and "\<And>m. m \<in> set (team_members d) \<Longrightarrow> tm_role m = ''owner'' \<Longrightarrow> tm_status m = ''active''"
    and "\<And>t. t \<in> set (teams d) \<Longrightarrow> length (active_owners d (t_id t)) = 1"
  shows "team_invariant d"
  using assms unfolding team_invariant_def by simp

lemma insert_team_member_SomeD:
  assumes "insert_team_member d mk = Some (row, d1)"
  shows "row = mk (uuid_counter d)" "team_members d1 = team_members d @ [row]"
    "teams d1 = teams d" "uuid_counter d1 = Suc (uuid_counter d)"
    "team_exists d (tm_team_id row)"
  using assms unfolding insert_team_member_def uuid_generate_v4_def
  by (auto simp: Let_def split: option.splits if_splits)

lemma insert_team_SomeD:
  assumes "insert_team d mk = Some (row, d1)"
  shows "row = mk (uuid_counter d)" "teams d1 = teams d @ [row]"
    "team_members d1 = team_members d" "uuid_counter d1 = Suc (uuid_counter d)"
    "users d1 = users d" "user_exists d (t_created_by row)"
  using assms unfolding insert_team_def uuid_generate_v4_def
  by (auto simp: Let_def split: option.splits if_splits)

lemma active_owners_append:
  assumes "team_members d1 = team_members d @ [row]"
  shows "active_owners d1 tid = active_owners d tid @
           (if tm_team_id row = tid \<and> tm_role row = ''owner'' \<and> tm_status row = ''active'' then [row] else [])"
  unfolding active_owners_def assms by simp

lemma team_invariant_append_member:
  assumes inv: "team_invariant d"
    and t: "teams d1 = teams d" and m: "team_members d1 = team_members d @ [row]"
    and c: "uuid_counter d \<le> uuid_counter d1"
    and e: "team_exists d (tm_team_id row)" and r: "tm_role row \<noteq> ''owner''"
  shows "team_invariant d1"
proof (rule team_invariantI)
  fix x assume "x \<in> set (teams d1)"
  then have "x \<in> set (teams d)" using t by simp
  from team_invariantD(1) [OF inv this] c show "t_id x < uuid_counter d1" by simp
next
  fix x assume "x \<in> set (team_members d1)"
  then have "x \<in> set (team_members d) \<or> x = row" using m by auto
  then have "team_exists d (tm_team_id x)"
    using team_invariantD(2) [OF inv] e by auto
  with t show "team_exists d1 (tm_team_id x)" by (simp add: team_exists_iff)
next
  fix x assume "x \<in> set (team_members d1)" and o: "tm_role x = ''owner''"
  then have "x \<in> set (team_members d) \<or> x = row" using m by auto
  with o r have "x \<in> set (team_members d)" by auto
  from team_invariantD(3) [OF inv this o] show "tm_status x = ''active''" .
next
  fix x assume "x \<in> set (teams d1)"
  then have "x \<in> set (teams d)" using t by simp
  from team_invariantD(4) [OF inv this] r show "length (active_owners d1 (t_id x)) = 1"
    by (simp add: active_owners_append [OF m])
qed

lemma invite_cases:
  assumes h: "handleInviteMember d userId teamId inviteData tok = (r, d1)"
  shows "d1 = d \<or> (\<exists>row d2. insert_team_member d (\<lambda>i. \<lparr>tm_id = i, tm_team_id = teamId,
                            tm_user_id = map_option u_id (single (filter (\<lambda>u. u_email u = ti_email inviteData) (users d))),
                            tm_role = ti_role inviteData, tm_status = ''pending'',
                            tm_invitation_token = Some tok,
                            tm_invited_by = Some userId\<rparr>) = Some (row, d2)
        \<and> d1 = insert_activity_log d2 \<lparr>al_user_id = Some userId, al_team_id = Some teamId,
                            al_action = ''member_invited'', al_resource_type = ''team_member'',
                            al_resource_id = None\<rparr>)"
  using h unfolding handleInviteMember_def Let_def
  by (simp split: option.splits if_splits prod.splits)

lemma invite_preserves:
  assumes inv: "team_invariant d"
    and k: "ti_role inviteData \<noteq> ''owner''"
    and h: "handleInviteMember d userId teamId inviteData tok = (r, d1)"
  shows "team_invariant d1"
  using invite_cases [OF h]
proof (elim disjE exE conjE)
  assume "d1 = d"
  with inv show ?thesis by simp
next
  fix row d2
  assume ins: "insert_team_member d (\<lambda>i. \<lparr>tm_id = i, tm_team_id = teamId,
                            tm_user_id = map_option u_id (single (filter (\<lambda>u. u_email u = ti_email inviteData) (users d))),
                            tm_role = ti_role inviteData, tm_status = ''pending'',
                            tm_invitation_token = Some tok,
                            tm_invited_by = Some userId\<rparr>) = Some (row, d2)"
    and d1: "d1 = insert_activity_log d2 \<lparr>al_user_id = Some userId, al_team_id = Some teamId,
                            al_action = ''member_invited'', al_resource_type = ''team_member'',
                            al_resource_id = None\<rparr>"
  note i = insert_team_member_SomeD [OF ins]
  have r: "tm_role row \<noteq> ''owner''" unfolding i(1) using k by simp
  show ?thesis
  proof (rule team_invariant_append_member [OF inv _ _ _ i(5) r])
    show "teams d1 = teams d" unfolding d1 using i(3) by simp
    show "team_members d1 = team_members d @ [row]" unfolding d1 using i(2) by simp
    show "uuid_counter d \<le> uuid_counter d1" unfolding d1 using i(4) by simp
  qed
qed

lemma team_invariant_map_members:
  assumes inv: "team_invariant d"
    and t: "teams d1 = teams d" and m: "team_members d1 = map f (team_members d)"
    and c: "uuid_counter d1 = uuid_counter d"
    and team: "\<And>x. x \<in> set (team_members d) \<Longrightarrow> tm_team_id (f x) = tm_team_id x"
    and owner: "\<And>x. x \<in> set (team_members d) \<Longrightarrow> (tm_role (f x) = ''owner'') = (tm_role x = ''owner'')"
    and active: "\<And>x. x \<in> set (team_members d) \<Longrightarrow> tm_role x = ''owner'' \<Longrightarrow> tm_status x = ''active''
                   \<Longrightarrow> tm_status (f x) = ''active''"
  shows "team_invariant d1"
proof (rule team_invariantI)
  fix x assume "x \<in> set (teams d1)"
  then have "x \<in> set (teams d)" using t by simp
  from team_invariantD(1) [OF inv this] c show "t_id x < uuid_counter d1" by simp
next
  fix x assume "x \<in> set (team_members d1)"
  then obtain y where y: "y \<in> set (team_members d)" and x: "x = f y" using m by auto
  from team_invariantD(2) [OF inv y] have "team_exists d (tm_team_id x)"
    unfolding x team [OF y] .
  with t show "team_exists d1 (tm_team_id x)" by (simp add: team_exists_iff)
next
  fix x assume "x \<in> set (team_members d1)" and o: "tm_role x = ''owner''"
  then obtain y where y: "y \<in> set (team_members d)" and x: "x = f y" using m by auto
  from o have oy: "tm_role y = ''owner''" unfolding x owner [OF y] .
  from active [OF y oy team_invariantD(3) [OF inv y oy]] show "tm_status x = ''active''"
    unfolding x .
next
  fix x assume "x \<in> set (teams d1)"
  then have "x \<in> set (teams d)" using t by simp
  from team_invariantD(4) [OF inv this] have one: "length (active_owners d (t_id x)) = 1" .
  have "length (active_owners d1 (t_id x)) = length (active_owners d (t_id x))"
    unfolding active_owners_def m
  proof (rule filter_map_same_length)
    fix y assume y: "y \<in> set (team_members d)"
    show "(tm_team_id (f y) = t_id x \<and> tm_role (f y) = ''owner'' \<and> tm_status (f y) = ''active'') =
          (tm_team_id y = t_id x \<and> tm_role y = ''owner'' \<and> tm_status y = ''active'')"
      using team [OF y] owner [OF y] active [OF y] team_invariantD(3) [OF inv y] by metis
  qed
  with one show "length (active_owners d1 (t_id x)) = 1" by simp
qed

lemma accept_preserves:
  assumes inv: "team_invariant d"
    and h: "handleAcceptInvitation d userId tok = (r, d1)"
  shows "team_invariant d1"
proof (cases r)
  case (Inl e)
  with h have "d1 = d" by (simp add: accept_failure_unchanged)
  with inv show ?thesis by simp
next
  case (Inr ok)
  with h have "handleAcceptInvitation d userId tok = (Inr ok, d1)" by simp
  then obtain invitation and team :: team and d2 where
    upd: "accept_update d invitation userId = Some d2"
    and eqs: "team_members d1 = team_members d2" "teams d1 = teams d2" "uuid_counter d1 = uuid_counter d2"
    by (rule accept_result)
  note u = accept_update_members [OF upd]
  show ?thesis
  proof (rule team_invariant_map_members [OF inv])
    show "teams d1 = teams d" using eqs u by simp
    show "team_members d1 = map (\<lambda>m. if tm_id m = tm_id invitation
                     then m\<lparr>tm_user_id := Some userId, tm_status := ''active'', tm_invitation_token := None\<rparr>
                     else m) (team_members d)" using eqs u by simp
    show "uuid_counter d1 = uuid_counter d" using eqs u by simp
  qed simp_all
qed

lemma update_cases:
  assumes h: "handleUpdateMember d userId teamId memberId upd = (r, d1)"
  shows "d1 = d \<or> d1 = d\<lparr>team_members :=
           map (\<lambda>m. if tm_id m = memberId then apply_member_update upd m else m) (team_members d)\<rparr>"
  using h unfolding handleUpdateMember_def Let_def
  by (simp split: option.splits if_splits prod.splits)

lemma update_preserves:
  assumes inv: "team_invariant d"
    and k: "keeps_owners d (PutMember teamId memberId upd)"
    and h: "handleUpdateMember d userId teamId memberId upd = (r, d1)"
  shows "team_invariant d1"
  using update_cases [OF h]
proof
  assume "d1 = d"
  with inv show ?thesis by simp
next
  assume d1: "d1 = d\<lparr>team_members :=
           map (\<lambda>m. if tm_id m = memberId then apply_member_update upd m else m) (team_members d)\<rparr>"
  from k have role: "mu_role upd \<noteq> Some ''owner''"
    and target: "\<And>m. m \<in> set (team_members d) \<Longrightarrow> tm_id m = memberId \<Longrightarrow> tm_role m \<noteq> ''owner''"
    by (simp_all add: list_ex_iff)
  show ?thesis
  proof (rule team_invariant_map_members [OF inv])
    show "teams d1 = teams d" "uuid_counter d1 = uuid_counter d" unfolding d1 by simp_all
    show "team_members d1 =
            map (\<lambda>m. if tm_id m = memberId then apply_member_update upd m else m) (team_members d)"
      unfolding d1 by simp
  next
    fix x assume "x \<in> set (team_members d)"
    show "tm_team_id (if tm_id x = memberId then apply_member_update upd x else x) = tm_team_id x"
      by (simp add: apply_member_update_def)
  next
    fix x assume x: "x \<in> set (team_members d)"
    show "(tm_role (if tm_id x = memberId then apply_member_update upd x else x) = ''owner'')
            = (tm_role x = ''owner'')"
    proof (cases "tm_id x = memberId")
      case True
      from target [OF x True] role show ?thesis
        using True by (cases "mu_role upd") (simp_all add: apply_member_update_def)
    next
      case False
      then show ?thesis by simp
    qed
  next
    fix x assume x: "x \<in> set (team_members d)" and o: "tm_role x = ''owner''"
      and a: "tm_status x = ''active''"
    from target [OF x] o have "tm_id x \<noteq> memberId" by auto
    with a show "tm_status (if tm_id x = memberId then apply_member_update upd x else x) = ''active''"
      by simp
  qed
qed

lemma insert_owner_succeeds:
  assumes "team_exists d tid" "user_exists d uid"
    and "\<And>m. m \<in> set (team_members d) \<Longrightarrow> tm_team_id m \<noteq> tid"
  shows "insert_team_member d (owner_member tid uid) \<noteq> None"
  using assms
  by (simp add: insert_team_member_def uuid_generate_v4_def member_roles_def member_statuses_def
      owner_member_def Let_def list_ex_iff)

lemma team_invariant_new_team:
  assumes inv: "team_invariant d"
    and t: "teams d1 = teams d @ [team]" and m: "team_members d1 = team_members d @ [row]"
    and c: "uuid_counter d < uuid_counter d1"
    and i: "t_id team = uuid_counter d"
    and r: "tm_team_id row = t_id team" "tm_role row = ''owner''" "tm_status row = ''active''"
  shows "team_invariant d1"
proof (rule team_invariantI)
  fix x assume "x \<in> set (teams d1)"
  then have "x \<in> set (teams d) \<or> x = team" using t by auto
  then show "t_id x < uuid_counter d1"
  proof
    assume "x \<in> set (teams d)"
    from team_invariantD(1) [OF inv this] c show ?thesis by simp
  next
    assume "x = team"
    with i c show ?thesis by simp
  qed
next
  fix x assume "x \<in> set (team_members d1)"
  then have "x \<in> set (team_members d) \<or> x = row" using m by auto
  then show "team_exists d1 (tm_team_id x)"
    using team_invariantD(2) [OF inv] r(1) t by (auto simp: team_exists_iff)
next
  fix x assume "x \<in> set (team_members d1)" and o: "tm_role x = ''owner''"
  then have "x \<in> set (team_members d) \<or> x = row" using m by auto
  then show "tm_status x = ''active''"
    using team_invariantD(3) [OF inv _ o] r(3) by auto
next
  fix x assume "x \<in> set (teams d1)"
  then have "x \<in> set (teams d) \<or> x = team" using t by auto
  then show "length (active_owners d1 (t_id x)) = 1"
  proof
    assume x: "x \<in> set (teams d)"
    from team_invariantD(1) [OF inv x] i r(1) have "tm_team_id row \<noteq> t_id x" by simp
    with team_invariantD(4) [OF inv x] show ?thesis
      by (simp add: active_owners_append [OF m])
  next
    assume x: "x = team"
    have "active_owners d (t_id team) = []"
      unfolding active_owners_def filter_empty_conv
    proof
      fix y assume y: "y \<in> set (team_members d)"
      from team_invariantD(2) [OF inv y] obtain z where "z \<in> set (teams d)" "t_id z = tm_team_id y"
        by (auto simp: team_exists_iff)
      with team_invariantD(1) [OF inv this(1)] i have "tm_team_id y \<noteq> t_id team" by simp
      then show "\<not> (tm_team_id y = t_id team \<and> tm_role y = ''owner'' \<and> tm_status y = ''active'')"
        by simp
    qed
    with r show ?thesis unfolding x by (simp add: active_owners_append [OF m])
  qed
qed

lemma create_cases:
  assumes h: "handleCreateTeam d userId teamData tier = Some (r, d1)"
  obtains (unchanged) "d1 = d"
  | (no_owner) slug team where
      "insert_team d (new_team teamData slug userId) = Some (team, d1)"
      "insert_team_member d1 (owner_member (t_id team) userId) = None"
  | (created) slug team d2 m d3 where
      "insert_team d (new_team teamData slug userId) = Some (team, d2)"
      "insert_team_member d2 (owner_member (t_id team) userId) = Some (m, d3)"
      "teams d1 = teams d3" "team_members d1 = team_members d3"
      "uuid_counter d1 = uuid_counter d3"
  using h unfolding handleCreateTeam_def Let_def
  by (auto split: option.split_asm if_split_asm prod.split_asm)

lemma create_preserves:
  assumes inv: "team_invariant d"
    and h: "handleCreateTeam d userId teamData tier = Some (r, d1)"
  shows "team_invariant d1"
proof -
  have owner_ok: "insert_team_member d2 (owner_member (t_id team) userId) \<noteq> None
                  \<and> t_id team = uuid_counter d"
    if ins: "insert_team d (new_team teamData slug userId) = Some (team, d2)" for slug team d2
  proof -
    note i = insert_team_SomeD [OF ins]
    have id: "t_id team = uuid_counter d" unfolding i(1) by (simp add: new_team_def)
    have "t_created_by team = userId" unfolding i(1) by (simp add: new_team_def)
    with i(6) i(5) have user: "user_exists d2 userId" by (simp add: user_exists_def)
    have team: "team_exists d2 (t_id team)" using i(2) by (simp add: team_exists_iff)
    have fresh: "\<And>m. m \<in> set (team_members d2) \<Longrightarrow> tm_team_id m \<noteq> t_id team"
    proof -
      fix m assume "m \<in> set (team_members d2)"
      then have m: "m \<in> set (team_members d)" using i(3) by simp
      from team_invariantD(2) [OF inv m] obtain z where z: "z \<in> set (teams d)" "t_id z = tm_team_id m"
        by (auto simp: team_exists_iff)
      from team_invariantD(1) [OF inv z(1)] z(2) id show "tm_team_id m \<noteq> t_id team" by simp
    qed
    from insert_owner_succeeds [OF team user fresh] id show ?thesis by simp
  qed
  from h show ?thesis
  proof (cases rule: create_cases)
    case unchanged
    with inv show ?thesis by simp
  next
    case (no_owner slug team)
    with owner_ok show ?thesis by blast
  next
    case (created slug team d2 row d3)
    note ins = created(1) and mem = created(2) and eqs = created(3,4,5)
    note i = insert_team_SomeD [OF ins]
    note j = insert_team_member_SomeD [OF mem]
    from owner_ok [OF ins] have id: "t_id team = uuid_counter d" by simp
    show ?thesis
    proof (rule team_invariant_new_team [OF inv _ _ _ id])
      show "teams d1 = teams d @ [team]" using eqs j i by simp
      show "team_members d1 = team_members d @ [row]" using eqs j i by simp
      show "uuid_counter d < uuid_counter d1" using eqs j i by simp
      show "tm_team_id row = t_id team" "tm_role row = ''owner''" "tm_status row = ''active''"
        unfolding j(1) by (simp_all add: owner_member_def)
    qed
  qed
qed

lemma step_preserves:
  assumes inv: "team_invariant d" and k: "keeps_owners d req"
    and h: "team_management d auth rnd req = Some (response, d1)"
  shows "team_invariant d1"
proof (cases auth)
  case NoAuthorization
  with h inv show ?thesis by (simp add: team_management_def)
next
  case (Authorization token)
  show ?thesis
  proof (cases token)
  case None
  with h inv Authorization show ?thesis by (simp add: team_management_def)
next
  case (Some userId)
  note Some = Authorization [unfolded Some]
  show ?thesis
  proof (cases "single (filter (\<lambda>u. u_id u = userId) (users d))")
    case None
    with h inv Some show ?thesis by (simp add: team_management_def)
  next
    case u: (Some userData)
    show ?thesis
    proof (cases "u_is_active userData")
      case False
      with h inv Some u show ?thesis by (simp add: team_management_def)
    next
      case True
      show ?thesis
      proof (cases req)
        case (PostCreateTeam teamData)
        with h Some u True have "handleCreateTeam d userId teamData (u_subscription_tier userData) = Some (response, d1)"
          by (simp add: team_management_def)
        from create_preserves [OF inv this] show ?thesis .
      next
        case (PostInvite teamId inviteData)
        show ?thesis
        proof (cases teamId)
          case None
          with h inv Some u True PostInvite show ?thesis by (simp add: team_management_def)
        next
          case t: (Some tid)
          with h Some u True PostInvite have "handleInviteMember d userId tid inviteData rnd = (response, d1)"
            by (simp add: team_management_def)
          moreover from k PostInvite have "ti_role inviteData \<noteq> ''owner''" by simp
          ultimately show ?thesis using inv by (simp only: invite_preserves)
        qed
      next
        case (PostAcceptInvite inviteToken)
        show ?thesis
        proof (cases inviteToken)
          case None
          with h inv Some u True PostAcceptInvite show ?thesis by (simp add: team_management_def)
        next
          case t: (Some tok)
          show ?thesis
          proof (cases "tok = []")
            case True
            with h inv Some u \<open>u_is_active userData\<close> PostAcceptInvite t show ?thesis
              by (simp add: team_management_def)
          next
            case False
            with h Some u \<open>u_is_active userData\<close> PostAcceptInvite t
            have "handleAcceptInvitation d userId tok = (response, d1)"
              by (simp add: team_management_def)
            from accept_preserves [OF inv this] show ?thesis .
          qed
        qed
      next
        case (PutMember teamId memberId upd)
        with h Some u True have "handleUpdateMember d userId teamId memberId upd = (response, d1)"
          by (simp add: team_management_def)
        from update_preserves [OF inv k [unfolded PutMember] this] show ?thesis .
      qed
    qed
  qed
qed
qed

lemma reachable_invariant: "reachable d \<Longrightarrow> team_invariant d"
proof (induction rule: reachable.induct)
  case (init d)
  then show ?case by (simp add: team_invariant_def)
next
  case (step d req auth rnd response d1)
  from step_preserves [OF step.IH step.hyps(2) step.hyps(3)] show ?case .
qed

text \<open>
  C4, as the code has it. Starting from a database without teams, after any sequence of
  team creations and acceptances, of invitations to a role other than owner, and of member
  updates that neither target the row of an owner nor assign the role owner, every team
  has exactly one row with the role owner and the status active.
\<close>

theorem one_active_owner:
  assumes "reachable d"
  shows "\<forall>t \<in> set (teams d). length (active_owners d (t_id t)) = 1"
  using team_invariantD(4) [OF reachable_invariant [OF assms]] by blast

text \<open>
  Alice creates Acme and invites Bob as a member: Acme has one active owner.
\<close>

lemma created_db_run:
  "team_management db0 (Authorization (Some 1)) [] (PostCreateTeam acme_request) = Some (Inr (TeamCreated acme), created_db)"
  by code_simp

lemma invited_db_run:
  "team_management created_db (Authorization (Some 1)) ''tok-1'' (PostInvite (Some 100) bob_invite)
     = Some (Inr (MemberInvited bob_invitation ''/team/invite?token=tok-1''), invited_db)"
  by code_simp

theorem one_active_owner_witness:
  "reachable invited_db \<and> teams invited_db = [acme] \<and> length (active_owners invited_db 100) = 1"
proof -
  have "reachable db0" by (rule reachable.init) (simp_all add: db0_def)
  from reachable.step [OF this _ created_db_run] have "reachable created_db" by simp
  from reachable.step [OF this _ invited_db_run] have r: "reachable invited_db"
    by (simp add: bob_invite_def)
  have t: "teams invited_db = [acme]" by (simp add: invited_db_def created_db_def)
  then have "acme \<in> set (teams invited_db)" by simp
  with one_active_owner [OF r] have "length (active_owners invited_db (t_id acme)) = 1"
    by (rule bspec)
  then have "length (active_owners invited_db 100) = 1" by (simp add: acme_def)
  with r t show ?thesis by simp
qed

text \<open>
  A member update and the role of an invitation are written as they are given. The owner
  who sets her own role to member leaves the team without an owner; the owner who sets the
  role of a second member to owner leaves it with two; and so does the owner who invites
  Bob as an owner, once Bob accepts.
\<close>

theorem owner_count_counterexample:
  "owner_count_after db0
     [(Authorization (Some 1), [], PostCreateTeam acme_request),
      (Authorization (Some 1), [], PutMember 100 101 \<lparr>mu_role = Some ''member'', mu_status = None\<rparr>)] 100 = Some 0
   \<and> owner_count_after db0
     [(Authorization (Some 1), [], PostCreateTeam acme_request),
      (Authorization (Some 1), ''tok-1'', PostInvite (Some 100) bob_invite),
      (Authorization (Some 2), [], PostAcceptInvite (Some ''tok-1'')),
      (Authorization (Some 1), [], PutMember 100 102 \<lparr>mu_role = Some ''owner'', mu_status = None\<rparr>)] 100 = Some 2
   \<and> owner_count_after db0
     [(Authorization (Some 1), [], PostCreateTeam acme_request),
      (Authorization (Some 1), ''tok-1'',
         PostInvite (Some 100) \<lparr>ti_email = ''bob@x.com'', ti_role = ''owner'', ti_message = None\<rparr>),
      (Authorization (Some 2), [], PostAcceptInvite (Some ''tok-1''))] 100 = Some 2"
  by code_simp

end
